theory Spec2Isabelle
  imports Main "HOL-Library.List_Lexorder"
begin

section \<open>JavaScript values\<close>

text \<open>
  A JavaScript string is a sequence of UTF-16 code units. The marker character of the
  plan format (the leftwards arrow, U+2190) is one code unit outside ASCII, so strings are
  lists of code units, each a natural number; \<open>ascii\<close> embeds an ASCII literal.
  With \<open>List_Lexorder\<close> the order on these lists is the lexicographic order by code
  unit, a proper prefix being smaller: the order of JavaScript's string comparison and
  of \<open>Array.prototype.sort\<close> without a comparator.
\<close>

type_synonym cu = nat
type_synonym jstring = "cu list"

definition ascii :: "string \<Rightarrow> jstring" where
  "ascii s = map of_char s"

definition larr :: cu where
  "larr = 8592"

subsection \<open>String operations\<close>

text \<open>
  The white space of \<open>String.prototype.trim\<close> and of the regular expression class
  \<open>\s\<close>: the WhiteSpace and LineTerminator code points of ECMAScript.
\<close>

definition is_space :: "cu \<Rightarrow> bool" where
  "is_space c =
     (c \<in> set [9, 10, 11, 12, 13, 32, 160, 5760, 8232, 8233, 8239, 8287, 12288, 65279]
      \<or> (8192 \<le> c \<and> c \<le> 8202))"

definition is_line_terminator :: "cu \<Rightarrow> bool" where
  "is_line_terminator c = (c = 10 \<or> c = 13 \<or> c = 8232 \<or> c = 8233)"

definition is_digit :: "cu \<Rightarrow> bool" where
  "is_digit c = (48 \<le> c \<and> c \<le> 57)"

definition trim :: "jstring \<Rightarrow> jstring" where
  "trim s = rev (dropWhile is_space (rev (dropWhile is_space s)))"

text \<open>\<open>s.split(sep)\<close> for a separator of one code unit; the empty string splits into \<open>[""]\<close>.\<close>

fun split_on :: "cu \<Rightarrow> jstring \<Rightarrow> jstring list" where
  "split_on sep [] = [[]]"
| "split_on sep (x # xs) =
     (if x = sep then [] # split_on sep xs
      else (case split_on sep xs of [] \<Rightarrow> [[x]] | l # ls \<Rightarrow> (x # l) # ls))"

fun join_with :: "jstring \<Rightarrow> jstring list \<Rightarrow> jstring" where
  "join_with sep [] = []"
| "join_with sep [x] = x"
| "join_with sep (x # y # ys) = x @ sep @ join_with sep (y # ys)"

text \<open>
  Numbers. The numbers of this program are results of \<open>parseInt\<close> and loop counters:
  \<open>NaN\<close>, an infinity, or a double with an integer value, kept as that integer. A
  double holds every integer of magnitude at most \<open>2^53 - 1\<close>, the safe range, which is
  also the range the schema's \<open>int()\<close> accepts. A larger integer is rounded to the
  nearest double, which has 53 significant bits, a tie going to the even one; from
  \<open>2^1024 - 2^970\<close> on the result is the infinity.
\<close>

datatype jsnum = NaN | Num int | PosInfinity | NegInfinity

definition max_safe_integer :: int where
  "max_safe_integer = 9007199254740991"

function bit_length :: "nat \<Rightarrow> nat" where
  "bit_length n = (if n = 0 then 0 else Suc (bit_length (n div 2)))"
  by pat_completeness auto
termination
  by (relation "measure (\<lambda>n. n)") auto

declare bit_length.simps [simp del]

definition round_double :: "nat \<Rightarrow> nat option" where
  "round_double n =
     (if bit_length n \<le> 53 then Some n
      else
        (let e = bit_length n - 53;
             q = n div 2 ^ e;
             r = n mod 2 ^ e;
             q' = (if 2 ^ (e - 1) < r \<or> (r = 2 ^ (e - 1) \<and> odd q) then q + 1 else q)
         in if 2 ^ 1024 \<le> q' * 2 ^ e then None else Some (q' * 2 ^ e)))"

definition to_number :: "int \<Rightarrow> jsnum" where
  "to_number n =
     (if \<bar>n\<bar> \<le> max_safe_integer then Num n
      else
        (case round_double (nat \<bar>n\<bar>) of
           None \<Rightarrow> if n < 0 then NegInfinity else PosInfinity
         | Some v \<Rightarrow> Num (if n < 0 then - int v else int v)))"

definition digits_value :: "jstring \<Rightarrow> int" where
  "digits_value ds = foldl (\<lambda>acc d. 10 * acc + (int d - 48)) 0 ds"

text \<open>
  \<open>parseInt(s, 10)\<close>: leading white space is skipped, one sign is read, then the longest
  run of decimal digits; no digit gives \<open>NaN\<close>. The result is the Number value for the
  integer the digits denote.
\<close>

definition parseInt :: "jstring \<Rightarrow> jsnum" where
  "parseInt s =
     (let s1 = dropWhile is_space s;
          neg = (case s1 of [] \<Rightarrow> False | x # xs \<Rightarrow> x = 45);
          s2 = (case s1 of [] \<Rightarrow> [] | x # xs \<Rightarrow> if x = 43 \<or> x = 45 then xs else s1);
          ds = takeWhile is_digit s2
      in if ds = [] then NaN
         else to_number (if neg then - digits_value ds else digits_value ds))"

text \<open>The decimal rendering of a count, as a template literal produces it.\<close>

function show_nat :: "nat \<Rightarrow> jstring" where
  "show_nat n = (if n < 10 then [48 + n] else show_nat (n div 10) @ [48 + n mod 10])"
  by pat_completeness auto
termination
  by (relation "measure (\<lambda>n. n)") auto

declare show_nat.simps [simp del]


subsection \<open>Thrown values\<close>

text \<open>
  Values a JavaScript \<open>throw\<close> (or a rejected promise) carries in this program: a plain
  \<open>Error\<close> with its message, or a Node.js filesystem error, which has a \<open>code\<close>
  property besides.
\<close>

datatype js_error = Error jstring | NodeError jstring jstring

section \<open>Regular expressions\<close>

text \<open>
  The regular expressions of the program, by the backtracking semantics of ECMAScript.
  An expression is a sequence of nodes. Every quantifier of the program's expressions
  that repeats without bound is over a single character class, so \<open>Star\<close> takes a class;
  \<open>X+\<close> is \<open>X\<close> followed by \<open>X*\<close>, and \<open>X?\<close> is the alternative of \<open>X\<close> and the
  empty sequence, tried in this order. \<open>Bol\<close> and \<open>Eol\<close> are \<open>^\<close> and \<open>$\<close> without
  the \<open>m\<close> flag, \<open>BolM\<close> and \<open>EolM\<close> with it. \<open>GEnd\<close> is not written in an
  expression: the matcher leaves it behind an open group to close the capture.
\<close>

datatype quant = Greedy | Lazy

datatype re =
    Lit cu
  | Cls "cu \<Rightarrow> bool"
  | Star quant "cu \<Rightarrow> bool"
  | Seq "re list"
  | Alt re re
  | Grp nat re
  | GEnd nat jstring
  | Ahead re
  | Bol
  | Eol
  | BolM
  | EolM

type_synonym caps = "nat \<rightharpoonup> jstring"

fun wt :: "re \<Rightarrow> nat" where
  "wt (Seq rs) = Suc (sum_list (map wt rs))"
| "wt (Alt a b) = Suc (wt a + wt b)"
| "wt (Grp i r) = Suc (Suc (wt r))"
| "wt (Ahead r) = Suc (Suc (wt r))"
| "wt r = 1"

text \<open>
  \<open>m rs p s c\<close> matches the sequence \<open>rs\<close> at the head of \<open>s\<close>, where \<open>p\<close> is the code
  unit before \<open>s\<close> in the subject (none at its start) and \<open>c\<close> the captures so far. The
  first success in backtracking order is the answer: the captures, the last code unit
  before the rest, and the rest of the subject after the match.
\<close>

function m :: "re list \<Rightarrow> cu option \<Rightarrow> jstring \<Rightarrow> caps \<Rightarrow> (caps \<times> cu option \<times> jstring) option" where
  "m [] p s c = Some (c, p, s)"
| "m (Lit a # rs) p s c =
     (case s of [] \<Rightarrow> None | x # xs \<Rightarrow> if x = a then m rs (Some x) xs c else None)"
| "m (Cls P # rs) p s c =
     (case s of [] \<Rightarrow> None | x # xs \<Rightarrow> if P x then m rs (Some x) xs c else None)"
| "m (Star Greedy P # rs) p s c =
     (case s of
        [] \<Rightarrow> m rs p s c
      | x # xs \<Rightarrow>
          if P x then
            (case m (Star Greedy P # rs) (Some x) xs c of
               Some r \<Rightarrow> Some r
             | None \<Rightarrow> m rs p s c)
          else m rs p s c)"
| "m (Star Lazy P # rs) p s c =
     (case m rs p s c of
        Some r \<Rightarrow> Some r
      | None \<Rightarrow>
          (case s of
             [] \<Rightarrow> None
           | x # xs \<Rightarrow> if P x then m (Star Lazy P # rs) (Some x) xs c else None))"
| "m (Seq qs # rs) p s c = m (qs @ rs) p s c"
| "m (Alt a b # rs) p s c =
     (case m (a # rs) p s c of Some r \<Rightarrow> Some r | None \<Rightarrow> m (b # rs) p s c)"
| "m (Grp i r # rs) p s c = m (r # GEnd i s # rs) p s c"
| "m (GEnd i s0 # rs) p s c = m rs p s (c(i \<mapsto> take (length s0 - length s) s0))"
| "m (Ahead r # rs) p s c =
     (case m [r] p s c of None \<Rightarrow> None | Some (c', p', s') \<Rightarrow> m rs p s c')"
| "m (Bol # rs) p s c = (if p = None then m rs p s c else None)"
| "m (Eol # rs) p s c = (if s = [] then m rs p s c else None)"
| "m (BolM # rs) p s c =
     (case p of
        None \<Rightarrow> m rs p s c
      | Some y \<Rightarrow> if is_line_terminator y then m rs p s c else None)"
| "m (EolM # rs) p s c =
     (case s of
        [] \<Rightarrow> m rs p s c
      | x # xs \<Rightarrow> if is_line_terminator x then m rs p s c else None)"
  by pat_completeness auto
termination
  by (relation "measures [\<lambda>(rs, p, s, c). sum_list (map wt rs), \<lambda>(rs, p, s, c). length s]") auto

declare m.simps [simp del]

text \<open>
  The first match at or after the current position: \<open>String.prototype.match\<close> and
  \<open>RegExp.prototype.test\<close> without the \<open>g\<close> flag, and one call of \<open>exec\<close> with it. The
  end of the subject is a position too.
\<close>

fun search :: "re list \<Rightarrow> cu option \<Rightarrow> jstring \<Rightarrow> (caps \<times> cu option \<times> jstring) option" where
  "search rs p [] = m rs p [] Map.empty"
| "search rs p (x # xs) =
     (case m rs p (x # xs) Map.empty of
        Some r \<Rightarrow> Some r
      | None \<Rightarrow> search rs (Some x) xs)"

definition regex_test :: "re list \<Rightarrow> jstring \<Rightarrow> bool" where
  "regex_test rs s = (search rs None s \<noteq> None)"

definition match_group :: "re list \<Rightarrow> jstring \<Rightarrow> nat \<Rightarrow> jstring option" where
  "match_group rs s i = (case search rs None s of None \<Rightarrow> None | Some (c, p, rest) \<Rightarrow> c i)"

text \<open>
  The loop \<open>let x = re.exec(s); while (x !== null) { ...; x = re.exec(s) }\<close> over an
  expression with the \<open>g\<close> flag: each call searches from where the last match ended. The
  list of the matches' captures is the result. A match that consumes nothing leaves
  \<open>lastIndex\<close> where it was, and the loop finds it again for ever: the function is
  partial, and \<open>None\<close> the loop that does not end.
\<close>

partial_function (option) exec_all :: "re list \<Rightarrow> cu option \<Rightarrow> jstring \<Rightarrow> caps list option" where
  "exec_all rs p s =
     (case search rs p s of
        None \<Rightarrow> Some []
      | Some (c, p', rest) \<Rightarrow> Option.bind (exec_all rs p' rest) (\<lambda>ms. Some (c # ms)))"

declare exec_all.simps [code]

text \<open>
  \<open>s.replace(re, "")\<close> with the \<open>g\<close> flag: every match, left to right and without
  overlap, is removed; after a match that consumes nothing the scan moves on by one code
  unit.
\<close>

function remove_all :: "re list \<Rightarrow> cu option \<Rightarrow> jstring \<Rightarrow> jstring" where
  "remove_all rs p s =
     (case s of
        [] \<Rightarrow> []
      | x # xs \<Rightarrow>
          (case m rs p s Map.empty of
             None \<Rightarrow> x # remove_all rs (Some x) xs
           | Some (c, p', rest) \<Rightarrow>
               if length rest < length s then remove_all rs p' rest
               else x # remove_all rs (Some x) xs))"
  by pat_completeness auto
termination
  by (relation "measure (\<lambda>(rs, p, s). length s)") auto

declare remove_all.simps [simp del]

text \<open>
  Notation for expressions: a literal string, \<open>X+\<close>, \<open>X?\<close>, and classes. A counted
  repetition \<open>X{n}\<close> is \<open>n\<close> times \<open>X\<close>, written out or as \<open>replicate n X\<close>.
\<close>

definition lits :: "string \<Rightarrow> re list" where
  "lits s = map (\<lambda>ch. Lit (of_char ch)) s"

definition plus :: "quant \<Rightarrow> (cu \<Rightarrow> bool) \<Rightarrow> re" where
  "plus q P = Seq [Cls P, Star q P]"

definition opt :: "re \<Rightarrow> re" where
  "opt r = Alt r (Seq [])"

definition any_cu :: "cu \<Rightarrow> bool" where
  "any_cu c = True"

definition dot :: "cu \<Rightarrow> bool" where
  "dot c = (\<not> is_line_terminator c)"

definition lower :: "cu \<Rightarrow> bool" where
  "lower c = (97 \<le> c \<and> c \<le> 122)"

text \<open>\<open>[a-f0-9]\<close> under the \<open>i\<close> flag.\<close>

definition hex_i :: "cu \<Rightarrow> bool" where
  "hex_i c = ((97 \<le> c \<and> c \<le> 102) \<or> (65 \<le> c \<and> c \<le> 70) \<or> is_digit c)"

section \<open>Plan extraction\<close>

text \<open>
  The intermediate type \<open>ExtractedParts\<close>. A frontmatter object maps keys to strings or
  numbers. Field names are the source's; \<open>id\<close>, and the fields of the validated plan
  further down that repeat a name used here, carry a prime.
\<close>

datatype fmval = FStr jstring | FNum jsnum

record Task =
  id' :: jstring
  checked :: bool
  content :: jstring
  isCurrent :: bool
  citation :: "jstring option"

record Phase =
  number :: jsnum
  name :: jstring
  status :: jstring
  tasks :: "Task list"

record ExtractedParts =
  frontmatter :: "(jstring \<rightharpoonup> fmval) option"
  goal :: "jstring option"
  phases :: "Phase list"

text \<open>\<open>/^---\n([\s\S]*?)\n---/\<close>\<close>

definition fmRegex :: "re list" where
  "fmRegex = [Bol] @ lits ''---\<newline>'' @ [Grp 1 (Star Lazy any_cu)] @ lits ''\<newline>---''"

text \<open>\<open>/## Goal\n([^\n#]+)/\<close>\<close>

definition goalRegex :: "re list" where
  "goalRegex = lits ''## Goal\<newline>'' @ [Grp 1 (plus Greedy (\<lambda>c. c \<noteq> 10 \<and> c \<noteq> 35))]"

text \<open>\<open>/## Phase (\d+): ([^[]+)\[([^\]]+)\]\n([\s\S]*?)(?=## Phase \d+:|## Notes|## Blockers|$)/g\<close>\<close>

definition phaseRegex :: "re list" where
  "phaseRegex =
     lits ''## Phase '' @ [Grp 1 (plus Greedy is_digit)] @ lits '': ''
     @ [Grp 2 (plus Greedy (\<lambda>c. c \<noteq> 91)), Lit 91,
        Grp 3 (plus Greedy (\<lambda>c. c \<noteq> 93)), Lit 93, Lit 10,
        Grp 4 (Star Lazy any_cu),
        Ahead (Alt (Seq (lits ''## Phase '' @ [plus Greedy is_digit, Lit 58]))
              (Alt (Seq (lits ''## Notes''))
              (Alt (Seq (lits ''## Blockers''))
                   Eol)))]"

text \<open>
  \<open>/- \[([ x])\] (\*\*)?(\d+\.\d+) ([^\<leftarrow>\n]+)(\<leftarrow> CURRENT)?.*?(`ref:[a-z]+-[a-z]+-[a-z]+`)?/g\<close>
\<close>

definition taskRegex :: "re list" where
  "taskRegex =
     lits ''- ['' @ [Grp 1 (Cls (\<lambda>c. c = 32 \<or> c = 120))] @ lits ''] ''
     @ [opt (Grp 2 (Seq (lits ''**''))),
        Grp 3 (Seq [plus Greedy is_digit, Lit 46, plus Greedy is_digit]), Lit 32,
        Grp 4 (plus Greedy (\<lambda>c. c \<noteq> larr \<and> c \<noteq> 10)),
        opt (Grp 5 (Seq (Lit larr # lits '' CURRENT''))),
        Star Lazy dot,
        opt (Grp 6 (Seq ([Lit 96] @ lits ''ref:''
                         @ [plus Greedy lower, Lit 45, plus Greedy lower, Lit 45, plus Greedy lower,
                            Lit 96])))]"

text \<open>\<open>/\*\*/g\<close> and \<open>/`/g\<close>, the two expressions of \<open>replace\<close>.\<close>

definition boldRegex :: "re list" where
  "boldRegex = lits ''**''"

definition tickRegex :: "re list" where
  "tickRegex = [Lit 96]"

text \<open>
  A group that takes part in every match of its expression, such as groups 1 to 4 of
  \<open>phaseRegex\<close>, is read with \<open>group\<close>; an optional group is read from the captures as
  an option, \<open>None\<close> being \<open>undefined\<close>.
\<close>

definition group :: "caps \<Rightarrow> nat \<Rightarrow> jstring" where
  "group c i = (case c i of None \<Rightarrow> [] | Some g \<Rightarrow> g)"

text \<open>
  One line of the frontmatter block: \<open>const [key, ...valueParts] = line.split(":")\<close>.
  An assignment to the key \<open>__proto__\<close> of a string or a number leaves an object as it
  was.
\<close>

definition frontmatter_line :: "(jstring \<rightharpoonup> fmval) \<Rightarrow> jstring \<Rightarrow> (jstring \<rightharpoonup> fmval)" where
  "frontmatter_line fm line =
     (case split_on 58 line of
        [] \<Rightarrow> fm
      | key # valueParts \<Rightarrow>
          if key \<noteq> [] \<and> valueParts \<noteq> [] then
            (let value = trim (join_with [58] valueParts) in
             if trim key = ascii ''__proto__'' then fm
             else fm(trim key \<mapsto>
                      (if trim key = ascii ''phase'' then FNum (parseInt value) else FStr value)))
          else fm)"

definition extract_frontmatter :: "jstring \<Rightarrow> (jstring \<rightharpoonup> fmval) option" where
  "extract_frontmatter doc =
     (case match_group fmRegex doc 1 of
        None \<Rightarrow> None
      | Some block \<Rightarrow> Some (foldl frontmatter_line Map.empty (split_on 10 block)))"

text \<open>\<open>goalMatch?.[1]?.trim() || null\<close>: the empty string is falsy.\<close>

definition extract_goal :: "jstring \<Rightarrow> jstring option" where
  "extract_goal doc =
     (case match_group goalRegex doc 1 of
        None \<Rightarrow> None
      | Some g \<Rightarrow> if trim g = [] then None else Some (trim g))"

definition task_of_match :: "caps \<Rightarrow> Task" where
  "task_of_match c =
     \<lparr>id' = group c 3,
      checked = (group c 1 = ascii ''x''),
      content = remove_all boldRegex None (trim (group c 4)),
      isCurrent = (case c 5 of None \<Rightarrow> False | Some g \<Rightarrow> g \<noteq> []),
      citation = map_option (remove_all tickRegex None) (c 6)\<rparr>"

definition extract_tasks :: "jstring \<Rightarrow> Task list option" where
  "extract_tasks phaseContent = map_option (map task_of_match) (exec_all taskRegex None phaseContent)"

definition phase_of_match :: "caps \<Rightarrow> Phase option" where
  "phase_of_match c =
     Option.bind (extract_tasks (group c 4))
       (\<lambda>ts. Some \<lparr>number = parseInt (group c 1),
                    name = trim (group c 2),
                    status = trim (group c 3),
                    tasks = ts\<rparr>)"

text \<open>The body of the outer loop, over the matches of \<open>phaseRegex\<close> in document order.\<close>

fun phases_of_matches :: "caps list \<Rightarrow> Phase list option" where
  "phases_of_matches [] = Some []"
| "phases_of_matches (c # cs) =
     Option.bind (phase_of_match c)
       (\<lambda>ph. Option.bind (phases_of_matches cs) (\<lambda>phs. Some (ph # phs)))"

definition extract_phases :: "jstring \<Rightarrow> Phase list option" where
  "extract_phases doc = Option.bind (exec_all phaseRegex None doc) phases_of_matches"

text \<open>\<open>None\<close>: one of the two loops does not end, and the function does not return.\<close>

definition extractMarkdownParts :: "jstring \<Rightarrow> ExtractedParts option" where
  "extractMarkdownParts doc =
     Option.bind (extract_phases doc)
       (\<lambda>phs. Some \<lparr>frontmatter = extract_frontmatter doc,
                     goal = extract_goal doc,
                     phases = phs\<rparr>)"

section \<open>Plan schema\<close>

text \<open>
  The validated plan, the output type of \<open>PlanSchema\<close>. Tasks and phases have the shapes
  of the extracted ones. The extractor never fills \<open>context\<close>, which stays absent.
\<close>

record Frontmatter =
  status' :: jstring
  phase :: jsnum
  updated :: jstring

record Decision =
  decision :: jstring
  rationale :: jstring
  source :: jstring

record Plan =
  frontmatter' :: Frontmatter
  goal' :: jstring
  context' :: "Decision list option"
  phases' :: "Phase list"

text \<open>
  The schema library (Zod) is not part of the repository. Its \<open>safeParse\<close> is modelled by
  its documented behaviour: an object schema checks its fields in the order of their
  declaration, keeps the declared fields and drops every other key of the input; an
  array schema checks its elements in order; all issues are collected, each with the path
  of the value it is about. An issue carries the fields \<open>formatZodErrors\<close> reads: the
  path (indices already in decimal), the code, the message and, for an enumeration, the
  accepted values. It carries no input: the library removes the input from the issues
  it reports unless the caller asks for it, which this program does not, so
  \<open>issue.input\<close> reads \<open>undefined\<close>.

  A check declared with a message of the program's reports that message. The message of
  any other failed check is the library's own text, not fixed here: \<open>lm\<close>, a parameter of
  the validation, gives it for each kind of check and each value checked.
\<close>

datatype jsval = VUndefined | VNull | VStr jstring | VNum jsnum

datatype issue_code = invalid_type | invalid_value | too_small | too_big | invalid_format

datatype lib_check =
  ExpectedString | ExpectedNumber | ExpectedObject | InvalidOption | SafeInteger | Positive

type_synonym lib_messages = "lib_check \<Rightarrow> jsval \<Rightarrow> jstring"

record issue =
  path :: "jstring list"
  code :: issue_code
  message :: jstring
  values' :: "jstring list"

type_synonym 'a checked = "issue list + 'a"

definition issues_of :: "'a checked \<Rightarrow> issue list" where
  "issues_of r = (case r of Inl is \<Rightarrow> is | Inr v \<Rightarrow> [])"

text \<open>Two fields of an object, and the elements of an array: every issue is kept, in order.\<close>

definition both :: "'a checked \<Rightarrow> 'b checked \<Rightarrow> ('a \<times> 'b) checked" where
  "both a b =
     (case a of
        Inr x \<Rightarrow> (case b of Inr y \<Rightarrow> Inr (x, y) | Inl is \<Rightarrow> Inl is)
      | Inl is \<Rightarrow> Inl (is @ issues_of b))"

fun each :: "'a checked list \<Rightarrow> 'a list checked" where
  "each [] = Inr []"
| "each (r # rs) = (case both r (each rs) of Inl is \<Rightarrow> Inl is | Inr (x, xs) \<Rightarrow> Inr (x # xs))"

definition fmval_js :: "fmval option \<Rightarrow> jsval" where
  "fmval_js v = (case v of None \<Rightarrow> VUndefined | Some (FStr s) \<Rightarrow> VStr s | Some (FNum n) \<Rightarrow> VNum n)"

text \<open>\<open>z.enum([...])\<close>\<close>

definition check_enum :: "lib_messages \<Rightarrow> jstring list \<Rightarrow> jstring list \<Rightarrow> jsval \<Rightarrow> jstring checked" where
  "check_enum lm vals pth v =
     (case v of
        VStr s \<Rightarrow>
          if s \<in> set vals then Inr s
          else Inl [\<lparr>path = pth, code = invalid_value, message = lm InvalidOption v, values' = vals\<rparr>]
      | _ \<Rightarrow> Inl [\<lparr>path = pth, code = invalid_value, message = lm InvalidOption v, values' = vals\<rparr>])"

text \<open>
  \<open>z.number().int().positive()\<close>: \<open>NaN\<close>, an infinity and a value that is no number
  fail the type check, which ends the checks of this value; on a finite number both
  refinements run.
\<close>

definition check_positive_int :: "lib_messages \<Rightarrow> jstring list \<Rightarrow> jsval \<Rightarrow> jsnum checked" where
  "check_positive_int lm pth v =
     (case v of
        VNum (Num n) \<Rightarrow>
          (let unsafe =
                 (if max_safe_integer < n then
                    [\<lparr>path = pth, code = too_big, message = lm SafeInteger v, values' = []\<rparr>]
                  else if n < - max_safe_integer then
                    [\<lparr>path = pth, code = too_small, message = lm SafeInteger v, values' = []\<rparr>]
                  else []);
               nonpos =
                 (if n \<le> 0 then
                    [\<lparr>path = pth, code = too_small, message = lm Positive v, values' = []\<rparr>]
                  else [])
           in if unsafe @ nonpos = [] then Inr (Num n) else Inl (unsafe @ nonpos))
      | _ \<Rightarrow>
          Inl [\<lparr>path = pth, code = invalid_type, message = lm ExpectedNumber v, values' = []\<rparr>])"

text \<open>\<open>z.string().min(n, msg)\<close> and \<open>z.string().regex(re, msg)\<close>\<close>

definition check_string_min :: "lib_messages \<Rightarrow> nat \<Rightarrow> jstring \<Rightarrow> jstring list \<Rightarrow> jsval \<Rightarrow> jstring checked" where
  "check_string_min lm n msg pth v =
     (case v of
        VStr s \<Rightarrow>
          if n \<le> length s then Inr s
          else Inl [\<lparr>path = pth, code = too_small, message = msg, values' = []\<rparr>]
      | _ \<Rightarrow>
          Inl [\<lparr>path = pth, code = invalid_type, message = lm ExpectedString v, values' = []\<rparr>])"

definition check_string_regex :: "lib_messages \<Rightarrow> re list \<Rightarrow> jstring \<Rightarrow> jstring list \<Rightarrow> jsval \<Rightarrow> jstring checked" where
  "check_string_regex lm rx msg pth v =
     (case v of
        VStr s \<Rightarrow>
          if regex_test rx s then Inr s
          else Inl [\<lparr>path = pth, code = invalid_format, message = msg, values' = []\<rparr>]
      | _ \<Rightarrow>
          Inl [\<lparr>path = pth, code = invalid_type, message = lm ExpectedString v, values' = []\<rparr>])"

text \<open>\<open>/^\d+\.\d+$/\<close>, \<open>/^ref:[a-z]+-[a-z]+-[a-z]+$/\<close> and \<open>/^\d{4}-\d{2}-\d{2}$/\<close>\<close>

definition taskIdRegex :: "re list" where
  "taskIdRegex = [Bol, plus Greedy is_digit, Lit 46, plus Greedy is_digit, Eol]"

definition citationRegex :: "re list" where
  "citationRegex =
     [Bol] @ lits ''ref:''
     @ [plus Greedy lower, Lit 45, plus Greedy lower, Lit 45, plus Greedy lower, Eol]"

definition dateRegex :: "re list" where
  "dateRegex =
     [Bol, Cls is_digit, Cls is_digit, Cls is_digit, Cls is_digit, Lit 45,
      Cls is_digit, Cls is_digit, Lit 45, Cls is_digit, Cls is_digit, Eol]"

definition PhaseStatus :: "jstring list" where
  "PhaseStatus = [ascii ''PENDING'', ascii ''IN PROGRESS'', ascii ''COMPLETE'', ascii ''BLOCKED'']"

definition FrontmatterStatus :: "jstring list" where
  "FrontmatterStatus =
     [ascii ''not-started'', ascii ''in-progress'', ascii ''complete'', ascii ''blocked'']"

definition TaskSchema :: "lib_messages \<Rightarrow> jstring list \<Rightarrow> Task \<Rightarrow> Task checked" where
  "TaskSchema lm pth t =
     (case both
             (check_string_regex lm taskIdRegex
                (ascii ''Task ID must be hierarchical (e.g., '' @ [39] @ ascii ''2.1'' @ [39] @ ascii '')'')
                (pth @ [ascii ''id'']) (VStr (id' t)))
          (both
             (check_string_min lm 1 (ascii ''Task content cannot be empty'')
                (pth @ [ascii ''content'']) (VStr (content t)))
             (case citation t of
                None \<Rightarrow> Inr None
              | Some ci \<Rightarrow>
                  (case check_string_regex lm citationRegex
                          (ascii ''Citation must be ref:word-word-word format'')
                          (pth @ [ascii ''citation'']) (VStr ci) of
                     Inl is \<Rightarrow> Inl is
                   | Inr ci' \<Rightarrow> Inr (Some ci')))) of
        Inl is \<Rightarrow> Inl is
      | Inr (i, co, ci) \<Rightarrow>
          Inr \<lparr>id' = i, checked = checked t, content = co, isCurrent = isCurrent t, citation = ci\<rparr>)"

text \<open>An array with \<open>.min(1, msg)\<close>: the elements are checked, then the length.\<close>

definition check_array_min1 :: "jstring \<Rightarrow> jstring list \<Rightarrow> 'a checked list \<Rightarrow> 'a list checked" where
  "check_array_min1 msg pth rs =
     (case each rs of
        Inl is \<Rightarrow> Inl is
      | Inr xs \<Rightarrow>
          if rs = [] then
            Inl [\<lparr>path = pth, code = too_small, message = msg, values' = []\<rparr>]
          else Inr xs)"

definition indexed :: "'a list \<Rightarrow> (nat \<times> 'a) list" where
  "indexed xs = zip [0..<length xs] xs"

definition PhaseSchema :: "lib_messages \<Rightarrow> jstring list \<Rightarrow> Phase \<Rightarrow> Phase checked" where
  "PhaseSchema lm pth ph =
     (case both
             (check_positive_int lm (pth @ [ascii ''number'']) (VNum (number ph)))
          (both
             (check_string_min lm 1 (ascii ''Phase name cannot be empty'')
                (pth @ [ascii ''name'']) (VStr (name ph)))
          (both
             (check_enum lm PhaseStatus (pth @ [ascii ''status'']) (VStr (status ph)))
             (check_array_min1 (ascii ''Phase must have at least one task'') (pth @ [ascii ''tasks''])
                (map (\<lambda>(i, t). TaskSchema lm (pth @ [ascii ''tasks'', show_nat i]) t)
                   (indexed (tasks ph)))))) of
        Inl is \<Rightarrow> Inl is
      | Inr (n, nm, st, ts) \<Rightarrow> Inr \<lparr>number = n, name = nm, status = st, tasks = ts\<rparr>)"

definition FrontmatterSchema :: "lib_messages \<Rightarrow> jstring list \<Rightarrow> (jstring \<rightharpoonup> fmval) option \<Rightarrow> Frontmatter checked" where
  "FrontmatterSchema lm pth v =
     (case v of
        None \<Rightarrow>
          Inl [\<lparr>path = pth, code = invalid_type, message = lm ExpectedObject VNull, values' = []\<rparr>]
      | Some fm \<Rightarrow>
          (case both
                  (check_enum lm FrontmatterStatus (pth @ [ascii ''status''])
                     (fmval_js (fm (ascii ''status''))))
               (both
                  (check_positive_int lm (pth @ [ascii ''phase'']) (fmval_js (fm (ascii ''phase''))))
                  (check_string_regex lm dateRegex (ascii ''Date must be YYYY-MM-DD'')
                     (pth @ [ascii ''updated'']) (fmval_js (fm (ascii ''updated''))))) of
             Inl is \<Rightarrow> Inl is
           | Inr (st, n, up) \<Rightarrow> Inr \<lparr>status' = st, phase = n, updated = up\<rparr>))"

definition check_goal :: "lib_messages \<Rightarrow> jstring list \<Rightarrow> jstring option \<Rightarrow> jstring checked" where
  "check_goal lm pth v =
     (case v of
        None \<Rightarrow>
          Inl [\<lparr>path = pth, code = invalid_type, message = lm ExpectedString VNull, values' = []\<rparr>]
      | Some g \<Rightarrow>
          check_string_min lm 10 (ascii ''Goal must be at least 10 characters'') pth (VStr g))"

text \<open>\<open>PlanSchema.safeParse(candidate)\<close>\<close>

definition PlanSchema :: "lib_messages \<Rightarrow> ExtractedParts \<Rightarrow> Plan checked" where
  "PlanSchema lm candidate =
     (case both
             (FrontmatterSchema lm [ascii ''frontmatter''] (frontmatter candidate))
          (both
             (check_goal lm [ascii ''goal''] (goal candidate))
             (check_array_min1 (ascii ''Plan must have at least one phase'') [ascii ''phases'']
                (map (\<lambda>(i, ph). PhaseSchema lm [ascii ''phases'', show_nat i] ph)
                   (indexed (phases candidate))))) of
        Inl is \<Rightarrow> Inl is
      | Inr (fm, g, phs) \<Rightarrow>
          Inr \<lparr>frontmatter' = fm, goal' = g, context' = None, phases' = phs\<rparr>)"

section \<open>Parsing a plan\<close>

datatype ParseResult = Ok Plan "jstring list" | Fail jstring jstring

text \<open>
  One line of \<open>formatZodErrors\<close>. The input of an issue is \<open>undefined\<close>: the template
  literal renders it as the text \<open>undefined\<close>, and the test \<open>input === null\<close> of the
  second branch is false, so an issue of a wrong type keeps the library's message.
\<close>

definition format_issue :: "issue \<Rightarrow> jstring" where
  "format_issue i =
     (let pth = (if path i \<noteq> [] then ascii ''['' @ join_with (ascii ''.'') (path i) @ ascii '']''
                 else ascii ''[root]'');
          msg = (if code i = invalid_value then
                   ascii ''Invalid value \"undefined\". Expected: ''
                   @ join_with (ascii '' | '') (values' i)
                 else message i)
      in pth @ ascii '': '' @ msg)"

definition formatZodErrors :: "issue list \<Rightarrow> jstring" where
  "formatZodErrors is = join_with [10] (map format_issue is)"

definition skillHint :: jstring where
  "skillHint = ascii ''Load skill('' @ [39] @ ascii ''plan-protocol'' @ [39] @ ascii '') for the full format spec.''"

definition count_current :: "Phase list \<Rightarrow> nat" where
  "count_current phs = sum_list (map (\<lambda>ph. length (filter isCurrent (tasks ph))) phs)"

definition count_in_progress :: "Phase list \<Rightarrow> nat" where
  "count_in_progress phs = length (filter (\<lambda>ph. status ph = ascii ''IN PROGRESS'') phs)"

definition multiple_current_error :: "nat \<Rightarrow> jstring" where
  "multiple_current_error n =
     ascii ''Multiple tasks marked '' @ [larr] @ ascii '' CURRENT (found '' @ show_nat n
     @ ascii ''). Only one task may be current.''"

text \<open>
  \<open>parsePlanMarkdown\<close>, with the extractor it calls as a parameter. The argument has the
  type of strings, so the guard on \<open>typeof content\<close> is passed. The result is \<open>None\<close>
  when the function does not return.
\<close>

definition parsePlanMarkdownWith ::
    "(jstring \<Rightarrow> ExtractedParts option) \<Rightarrow> lib_messages \<Rightarrow> jstring \<Rightarrow> ParseResult option" where
  "parsePlanMarkdownWith extract lm doc =
     (if trim doc = [] then Some (Fail (ascii ''Empty content provided'') skillHint)
      else
        (case extract doc of
           None \<Rightarrow> None
         | Some parts \<Rightarrow>
             (case PlanSchema lm
                     \<lparr>frontmatter = frontmatter parts, goal = goal parts, phases = phases parts\<rparr> of
                Inl is \<Rightarrow> Some (Fail (formatZodErrors is) skillHint)
              | Inr data \<Rightarrow>
                  (let currentCount = count_current (phases' data);
                       inProgressCount = count_in_progress (phases' data)
                   in if 1 < currentCount then
                        Some (Fail (multiple_current_error currentCount) skillHint)
                      else
                        Some (Ok data
                          (if 1 < inProgressCount then
                             [ascii ''Multiple phases marked IN PROGRESS. Consider focusing on one phase at a time.'']
                           else []))))))"

definition parsePlanMarkdown :: "lib_messages \<Rightarrow> jstring \<Rightarrow> ParseResult option" where
  "parsePlanMarkdown lm doc = parsePlanMarkdownWith extractMarkdownParts lm doc"

text \<open>
  The cross mark U+274C is one code unit; the light bulb U+1F4A1 is a surrogate pair.
\<close>

definition formatParseError :: "jstring \<Rightarrow> jstring \<Rightarrow> jstring" where
  "formatParseError err hint =
     [10060] @ ascii '' Plan validation failed:\<newline>\<newline>'' @ err @ ascii ''\<newline>\<newline>''
     @ [55357, 56481] @ ascii '' '' @ hint"

definition isNodeError :: "js_error \<Rightarrow> bool" where
  "isNodeError e = (case e of Error msg \<Rightarrow> False | NodeError c msg \<Rightarrow> True)"

definition error_code :: "js_error \<Rightarrow> jstring option" where
  "error_code e = (case e of Error msg \<Rightarrow> None | NodeError c msg \<Rightarrow> Some c)"

section \<open>Root session resolution\<close>

text \<open>
  \<open>ctx.client.session.get\<close> is the host's session query. Its answer has an optional
  \<open>data\<close> field, which has an optional \<open>parentID\<close>; the call may also reject.
\<close>

record session_data =
  parentID :: "jstring option"

type_synonym session_client = "jstring \<Rightarrow> js_error + session_data option"

text \<open>
  \<open>session.data?.parentID\<close>, read for its truthiness: an absent \<open>data\<close>, an absent
  \<open>parentID\<close> and the empty string all count as no parent.
\<close>

definition truthy_parent :: "session_data option \<Rightarrow> jstring option" where
  "truthy_parent resp =
     (case resp of
        None \<Rightarrow> None
      | Some d \<Rightarrow> (case parentID d of
                     None \<Rightarrow> None
                   | Some p \<Rightarrow> if p = [] then None else Some p))"

definition depth_exceeded :: js_error where
  "depth_exceeded =
     Error (ascii ''Failed to resolve root session: maximum traversal depth exceeded'')"

text \<open>The loop \<open>for (let depth = 0; depth < 10; depth++)\<close> of \<open>getRootSessionID\<close>.\<close>

function walk_parents :: "session_client \<Rightarrow> nat \<Rightarrow> jstring \<Rightarrow> js_error + jstring" where
  "walk_parents client depth currentID =
     (if depth < 10 then
        (case client currentID of
           Inl e \<Rightarrow> Inl e
         | Inr resp \<Rightarrow>
             (case truthy_parent resp of
                None \<Rightarrow> Inr currentID
              | Some p \<Rightarrow> walk_parents client (depth + 1) p))
      else Inl depth_exceeded)"
  by pat_completeness auto
termination
  by (relation "measure (\<lambda>(client, depth, currentID). 10 - depth)") auto

declare walk_parents.simps [simp del]

definition getRootSessionID :: "session_client \<Rightarrow> jstring option \<Rightarrow> js_error + jstring" where
  "getRootSessionID client sessionID =
     (case sessionID of
        None \<Rightarrow> Inl (Error (ascii ''sessionID is required to resolve root session scope''))
      | Some s \<Rightarrow>
          if s = [] then Inl (Error (ascii ''sessionID is required to resolve root session scope''))
          else walk_parents client 0 s)"

text \<open>
  Chains of parent links in a session graph. \<open>parent_chain client s k root\<close>: following
  exactly \<open>k\<close> parent links from \<open>s\<close> arrives at \<open>root\<close>, the first session without a
  parent. \<open>has_links client s k\<close>: at least \<open>k\<close> parent links can be followed from \<open>s\<close>
  (in a cyclic graph, any number).
\<close>

fun parent_chain :: "session_client \<Rightarrow> jstring \<Rightarrow> nat \<Rightarrow> jstring \<Rightarrow> bool" where
  "parent_chain client s 0 root =
     (case client s of Inl e \<Rightarrow> False | Inr resp \<Rightarrow> truthy_parent resp = None \<and> s = root)"
| "parent_chain client s (Suc k) root =
     (case client s of
        Inl e \<Rightarrow> False
      | Inr resp \<Rightarrow> (case truthy_parent resp of None \<Rightarrow> False | Some p \<Rightarrow> parent_chain client p k root))"

fun has_links :: "session_client \<Rightarrow> jstring \<Rightarrow> nat \<Rightarrow> bool" where
  "has_links client s 0 = True"
| "has_links client s (Suc k) =
     (case client s of
        Inl e \<Rightarrow> False
      | Inr resp \<Rightarrow> (case truthy_parent resp of None \<Rightarrow> False | Some p \<Rightarrow> has_links client p k))"

text \<open>
  A graph for both cases: session \<open>[n]\<close> has parent \<open>[n + 1]\<close> for \<open>n < 9\<close>, session
  \<open>[9]\<close> has none, and session \<open>[100]\<close> is its own parent.
\<close>

definition demo_sessions :: session_client where
  "demo_sessions s =
     Inr (Some \<lparr>parentID =
       (case s of
          [n] \<Rightarrow> if n < 9 then Some [Suc n] else if n = 100 then Some [100] else None
        | _ \<Rightarrow> None)\<rparr>)"

text \<open>A graph of two sessions, each the parent of the other.\<close>

definition cycle_sessions :: session_client where
  "cycle_sessions s = Inr (Some \<lparr>parentID = Some (if s = [1] then [2] else [1])\<rparr>)"

section \<open>Plan store\<close>

text \<open>
  \<open>writeFile\<close> and \<open>readFile\<close> are called with the encoding \<open>utf8\<close>: the string is
  stored as its UTF-8 bytes and read back from them. The encoder takes a surrogate pair
  for its code point and writes U+FFFD, the bytes \<open>EF BF BD\<close>, for a surrogate that has
  no partner. The decoder is the state machine of the Encoding Standard: it keeps the
  number of bytes still needed, the code point so far and the range allowed for the next
  byte; a byte outside its range ends the sequence with U+FFFD and is read again as the
  start of the next one. A byte order mark is kept.
\<close>

type_synonym byte = nat

definition is_high_surrogate :: "cu \<Rightarrow> bool" where
  "is_high_surrogate c = (55296 \<le> c \<and> c \<le> 56319)"

definition is_low_surrogate :: "cu \<Rightarrow> bool" where
  "is_low_surrogate c = (56320 \<le> c \<and> c \<le> 57343)"

definition is_surrogate :: "cu \<Rightarrow> bool" where
  "is_surrogate c = (is_high_surrogate c \<or> is_low_surrogate c)"

definition encode_unit :: "cu \<Rightarrow> byte list" where
  "encode_unit c =
     (if c < 128 then [c]
      else if c < 2048 then [192 + c div 64, 128 + c mod 64]
      else if is_surrogate c then [239, 191, 189]
      else [224 + c div 4096, 128 + c div 64 mod 64, 128 + c mod 64])"

definition encode_pair :: "cu \<Rightarrow> cu \<Rightarrow> byte list" where
  "encode_pair h l =
     (let cp = 65536 + (h - 55296) * 1024 + (l - 56320)
      in [240 + cp div 262144, 128 + cp div 4096 mod 64, 128 + cp div 64 mod 64, 128 + cp mod 64])"

fun utf8_encode :: "jstring \<Rightarrow> byte list" where
  "utf8_encode [] = []"
| "utf8_encode [c] = encode_unit c"
| "utf8_encode (c # d # ds) =
     (if is_high_surrogate c \<and> is_low_surrogate d then encode_pair c d @ utf8_encode ds
      else encode_unit c @ utf8_encode (d # ds))"

definition code_units :: "nat \<Rightarrow> jstring" where
  "code_units cp =
     (if cp < 65536 then [cp]
      else [55296 + (cp - 65536) div 1024, 56320 + (cp - 65536) mod 1024])"

fun decode_from :: "nat \<Rightarrow> nat \<Rightarrow> nat \<Rightarrow> nat \<Rightarrow> byte list \<Rightarrow> jstring" where
  "decode_from 0 cp lo hi [] = []"
| "decode_from (Suc n) cp lo hi [] = [65533]"
| "decode_from 0 cp lo hi (b # bs) =
     (if b < 128 then b # decode_from 0 0 128 191 bs
      else if 194 \<le> b \<and> b \<le> 223 then decode_from (Suc 0) (b - 192) 128 191 bs
      else if 224 \<le> b \<and> b \<le> 239 then
        decode_from (Suc (Suc 0)) (b - 224) (if b = 224 then 160 else 128) (if b = 237 then 159 else 191) bs
      else if 240 \<le> b \<and> b \<le> 244 then
        decode_from (Suc (Suc (Suc 0))) (b - 240) (if b = 240 then 144 else 128)
          (if b = 244 then 143 else 191) bs
      else 65533 # decode_from 0 0 128 191 bs)"
| "decode_from (Suc n) cp lo hi (b # bs) =
     (if lo \<le> b \<and> b \<le> hi then
        (if n = 0 then code_units (cp * 64 + (b - 128)) @ decode_from 0 0 128 191 bs
         else decode_from n (cp * 64 + (b - 128)) 128 191 bs)
      else 65533 # decode_from 0 0 128 191 (b # bs))"

definition utf8_decode :: "byte list \<Rightarrow> jstring" where
  "utf8_decode bs = decode_from 0 0 128 191 bs"

text \<open>
  A string with every unpaired surrogate replaced by U+FFFD, and the strings that have
  no unpaired surrogate.
\<close>

fun scrub :: "jstring \<Rightarrow> jstring" where
  "scrub [] = []"
| "scrub [c] = [if is_surrogate c then 65533 else c]"
| "scrub (c # d # ds) =
     (if is_high_surrogate c \<and> is_low_surrogate d then c # d # scrub ds
      else (if is_surrogate c then 65533 else c) # scrub (d # ds))"

fun paired :: "jstring \<Rightarrow> bool" where
  "paired [] = True"
| "paired [c] = (\<not> is_surrogate c)"
| "paired (c # d # ds) =
     (if is_high_surrogate c \<and> is_low_surrogate d then paired ds
      else \<not> is_surrogate c \<and> paired (d # ds))"

text \<open>
  The filesystem, as the plan tools use it: the directories made, the files with their
  bytes, and for each operation the paths at which it fails, with the error it raises
  there (a permission, a name that is taken, a device). \<open>readFile\<close> of a path with no
  file raises the Node.js error with code \<open>ENOENT\<close>.
\<close>

record filesystem =
  files :: "jstring \<rightharpoonup> byte list"
  dirs :: "jstring set"
  mkdir_fails :: "jstring \<rightharpoonup> js_error"
  write_fails :: "jstring \<rightharpoonup> js_error"
  read_fails :: "jstring \<rightharpoonup> js_error"

definition fs_mkdir :: "filesystem \<Rightarrow> jstring \<Rightarrow> js_error + filesystem" where
  "fs_mkdir fs p =
     (case mkdir_fails fs p of
        Some e \<Rightarrow> Inl e
      | None \<Rightarrow> Inr (fs\<lparr>dirs := insert p (dirs fs)\<rparr>))"

definition fs_writeFile :: "filesystem \<Rightarrow> jstring \<Rightarrow> jstring \<Rightarrow> js_error + filesystem" where
  "fs_writeFile fs p txt =
     (case write_fails fs p of
        Some e \<Rightarrow> Inl e
      | None \<Rightarrow> Inr (fs\<lparr>files := (files fs)(p \<mapsto> utf8_encode txt)\<rparr>))"

definition enoent :: "jstring \<Rightarrow> js_error" where
  "enoent p =
     NodeError (ascii ''ENOENT'')
       (ascii ''ENOENT: no such file or directory, open '' @ [39] @ p @ [39])"

definition fs_readFile :: "filesystem \<Rightarrow> jstring \<Rightarrow> js_error + jstring" where
  "fs_readFile fs p =
     (case read_fails fs p of
        Some e \<Rightarrow> Inl e
      | None \<Rightarrow>
          (case files fs p of None \<Rightarrow> Inl (enoent p) | Some bs \<Rightarrow> Inr (utf8_decode bs)))"

text \<open>
  What the plugin closes over: the host's session query, \<open>path.join\<close> (of two
  segments; a call with more segments joins them from the left), the library's messages,
  and \<open>baseDir\<close>, the workspace directory of the project identity.
\<close>

record plugin =
  client :: session_client
  path_join :: "jstring \<Rightarrow> jstring \<Rightarrow> jstring"
  messages :: lib_messages
  baseDir :: jstring

definition make_baseDir :: "(jstring \<Rightarrow> jstring \<Rightarrow> jstring) \<Rightarrow> jstring \<Rightarrow> jstring \<Rightarrow> jstring" where
  "make_baseDir pjoin homedir projectId =
     foldl pjoin homedir
       [ascii ''.local'', ascii ''share'', ascii ''opencode'', ascii ''workspace'', projectId]"

definition plan_path :: "plugin \<Rightarrow> jstring \<Rightarrow> jstring" where
  "plan_path pl rootID = path_join pl (path_join pl (baseDir pl) rootID) (ascii ''plan.md'')"

text \<open>
  A tool call ends in one of three ways: it returns a text (\<open>Inr\<close>), it throws
  (\<open>Inl\<close>), or it does not end (\<open>None\<close>). With the outcome comes the filesystem the
  call leaves behind.
\<close>

type_synonym tool_outcome = "((js_error + jstring) \<times> filesystem) option"

definition plan_save :: "plugin \<Rightarrow> filesystem \<Rightarrow> jstring \<Rightarrow> jstring option \<Rightarrow> tool_outcome" where
  "plan_save pl fs doc sessionID =
     (if sessionID = None \<or> sessionID = Some [] then
        Some (Inr ([10060] @ ascii '' plan_save requires sessionID. This is a system error.''), fs)
      else
        (case getRootSessionID (client pl) sessionID of
           Inl e \<Rightarrow> Some (Inl e, fs)
         | Inr rootID \<Rightarrow>
             (case fs_mkdir fs (path_join pl (baseDir pl) rootID) of
                Inl e \<Rightarrow> Some (Inl e, fs)
              | Inr fs1 \<Rightarrow>
                  (case parsePlanMarkdown (messages pl) doc of
                     None \<Rightarrow> None
                   | Some (Fail err hint) \<Rightarrow> Some (Inr (formatParseError err hint), fs1)
                   | Some (Ok data warnings) \<Rightarrow>
                       (case fs_writeFile fs1 (plan_path pl rootID) doc of
                          Inl e \<Rightarrow> Some (Inl e, fs1)
                        | Inr fs2 \<Rightarrow>
                            Some (Inr (ascii ''Plan saved.''
                                       @ (if 0 < length warnings then
                                            ascii '' ('' @ show_nat (length warnings) @ ascii '' warnings: ''
                                            @ join_with (ascii '', '') warnings @ ascii '')''
                                          else [])),
                                  fs2))))))"

definition plan_read :: "plugin \<Rightarrow> filesystem \<Rightarrow> jstring option \<Rightarrow> tool_outcome" where
  "plan_read pl fs sessionID =
     (if sessionID = None \<or> sessionID = Some [] then
        Some (Inr ([10060] @ ascii '' plan_read requires sessionID. This is a system error.''), fs)
      else
        (case getRootSessionID (client pl) sessionID of
           Inl e \<Rightarrow> Some (Inl e, fs)
         | Inr rootID \<Rightarrow>
             (case fs_readFile fs (plan_path pl rootID) of
                Inr txt \<Rightarrow> Some (Inr txt, fs)
              | Inl e \<Rightarrow>
                  if isNodeError e \<and> error_code e = Some (ascii ''ENOENT'') then
                    Some (Inr (ascii ''No plan found.''), fs)
                  else Some (Inl e, fs))))"

section \<open>Project identity\<close>

text \<open>
  \<open>getProjectId\<close> reads the world through a few operations, gathered in a record: the
  path functions, \<open>stat\<close> (with its \<open>catch\<close>: \<open>None\<close> when it rejects), reading a
  file's text, the existence of a file, the run of \<open>git rev-list --max-parents=0 --all\<close>
  in a directory, the write of the cache file, and the SHA-256 digest in hexadecimal.
\<close>

datatype stat_kind = File | Directory | Other

text \<open>
  The run of the git command: anything inside the \<open>try\<close> block throws; or the process
  exits with a code, its output and its error output; or the five seconds pass first,
  the process is killed, and the exit code counts as 1.
\<close>

datatype spawn_result = SpawnThrows js_error | Exited int jstring jstring | TimedOut jstring

record git_env =
  env_join :: "jstring \<Rightarrow> jstring \<Rightarrow> jstring"
  env_resolve :: "jstring \<Rightarrow> jstring \<Rightarrow> jstring"
  env_stat :: "jstring \<Rightarrow> stat_kind option"
  env_text :: "jstring \<Rightarrow> js_error + jstring"
  env_exists :: "jstring \<Rightarrow> bool"
  env_rev_list :: "jstring \<Rightarrow> spawn_result"
  env_write :: "jstring \<Rightarrow> jstring \<Rightarrow> js_error option"
  env_sha256 :: "jstring \<Rightarrow> jstring"

text \<open>The calls of \<open>logWarn\<close>, by the fact each message reports.\<close>

datatype warning =
    NoGitFound jstring
  | InvalidCache jstring
  | CacheWriteFailed js_error
  | RevListFailed int jstring
  | GitCommandFailed js_error

text \<open>
  What a call leaves: the value returned or the error thrown, the warnings logged, and
  the cache file written, if one was, with its text.
\<close>

record id_outcome =
  result :: "js_error + jstring"
  logged :: "warning list"
  cached :: "(jstring \<times> jstring) option"

definition hashPath :: "git_env \<Rightarrow> jstring \<Rightarrow> jstring" where
  "hashPath env projectRoot = take 16 (env_sha256 env projectRoot)"

text \<open>\<open>/^gitdir:\s*(.+)$/m\<close>, \<open>/^[a-f0-9]{40}$/i\<close> and \<open>/^[a-f0-9]{16}$/i\<close>\<close>

definition gitdirRegex :: "re list" where
  "gitdirRegex = [BolM] @ lits ''gitdir:'' @ [Star Greedy is_space, Grp 1 (plus Greedy dot), EolM]"

definition hex40Regex :: "re list" where
  "hex40Regex = [Bol] @ replicate 40 (Cls hex_i) @ [Eol]"

definition hex16Regex :: "re list" where
  "hex16Regex = [Bol] @ replicate 16 (Cls hex_i) @ [Eol]"

text \<open>The worktree case: \<open>.git\<close> is a file that points to the git directory.\<close>

definition resolve_git_dir :: "git_env \<Rightarrow> jstring \<Rightarrow> jstring \<Rightarrow> stat_kind \<Rightarrow> js_error + jstring" where
  "resolve_git_dir env projectRoot gitPath gitStat =
     (if gitStat = File then
        (case env_text env gitPath of
           Inl e \<Rightarrow> Inl e
         | Inr txt \<Rightarrow>
             (case match_group gitdirRegex txt 1 of
                None \<Rightarrow>
                  Inl (Error (ascii ''getProjectId: .git file exists but has invalid format at ''
                              @ gitPath))
              | Some g \<Rightarrow>
                  (let resolvedGitdir = env_resolve env projectRoot (trim g);
                       commondirPath = env_join env resolvedGitdir (ascii ''commondir'');
                       gitDir =
                         (if env_exists env commondirPath then
                            (case env_text env commondirPath of
                               Inl e \<Rightarrow> Inl e
                             | Inr commondirContent \<Rightarrow>
                                 Inr (env_resolve env resolvedGitdir (trim commondirContent)))
                          else Inr (env_resolve env resolvedGitdir (ascii ''../..'')))
                   in (case gitDir of
                         Inl e \<Rightarrow> Inl e
                       | Inr d \<Rightarrow>
                           if env_stat env d = Some Directory then Inr d
                           else Inl (Error (ascii ''getProjectId: Resolved gitdir '' @ d
                                            @ ascii '' is not a directory''))))))
      else Inr gitPath)"

text \<open>
  The identity from the root commits: the lines of the output that are not empty,
  trimmed and sorted; the first is taken when it has the shape of a hash. Every other
  way out of the \<open>try\<close> block ends in the path hash.
\<close>

definition generate_id :: "git_env \<Rightarrow> jstring \<Rightarrow> jstring \<Rightarrow> warning list \<Rightarrow> id_outcome" where
  "generate_id env projectRoot cacheFile ws =
     (case env_rev_list env projectRoot of
        SpawnThrows e \<Rightarrow>
          \<lparr>result = Inr (hashPath env projectRoot), logged = ws @ [GitCommandFailed e], cached = None\<rparr>
      | TimedOut err \<Rightarrow>
          \<lparr>result = Inr (hashPath env projectRoot), logged = ws @ [RevListFailed 1 (trim err)],
           cached = None\<rparr>
      | Exited exitCode out err \<Rightarrow>
          if exitCode = 0 then
            (case sort (map trim (filter (\<lambda>l. l \<noteq> []) (split_on 10 out))) of
               [] \<Rightarrow> \<lparr>result = Inr (hashPath env projectRoot), logged = ws, cached = None\<rparr>
             | r # roots \<Rightarrow>
                 if regex_test hex40Regex r then
                   (case env_write env cacheFile r of
                      None \<Rightarrow> \<lparr>result = Inr r, logged = ws, cached = Some (cacheFile, r)\<rparr>
                    | Some e \<Rightarrow>
                        \<lparr>result = Inr r, logged = ws @ [CacheWriteFailed e], cached = None\<rparr>)
                 else \<lparr>result = Inr (hashPath env projectRoot), logged = ws, cached = None\<rparr>)
          else
            \<lparr>result = Inr (hashPath env projectRoot), logged = ws @ [RevListFailed exitCode (trim err)],
             cached = None\<rparr>)"

definition getProjectId :: "git_env \<Rightarrow> jstring \<Rightarrow> id_outcome" where
  "getProjectId env projectRoot =
     (if projectRoot = [] then
        \<lparr>result = Inl (Error (ascii ''getProjectId: projectRoot is required and must be a string'')),
         logged = [], cached = None\<rparr>
      else
        (let gitPath = env_join env projectRoot (ascii ''.git'') in
         case env_stat env gitPath of
           None \<Rightarrow>
             \<lparr>result = Inr (hashPath env projectRoot), logged = [NoGitFound projectRoot],
              cached = None\<rparr>
         | Some gitStat \<Rightarrow>
             (case resolve_git_dir env projectRoot gitPath gitStat of
                Inl e \<Rightarrow> \<lparr>result = Inl e, logged = [], cached = None\<rparr>
              | Inr gitDir \<Rightarrow>
                  (let cacheFile = env_join env gitDir (ascii ''opencode'') in
                   if env_exists env cacheFile then
                     (case env_text env cacheFile of
                        Inl e \<Rightarrow> \<lparr>result = Inl e, logged = [], cached = None\<rparr>
                      | Inr txt \<Rightarrow>
                          if regex_test hex40Regex (trim txt) \<or> regex_test hex16Regex (trim txt)
                          then \<lparr>result = Inr (trim txt), logged = [], cached = None\<rparr>
                          else generate_id env projectRoot cacheFile [InvalidCache cacheFile])
                   else generate_id env projectRoot cacheFile []))))"

text \<open>
  For the properties of \<open>getProjectId\<close>: the shape of a root commit hash; the output of
  the git command that lists the hashes \<open>hs\<close>, one on a line; a cache file that cannot be
  trusted (none, or one whose trimmed text has neither hash shape); and the world after a
  call, in which the cache file holds what the call wrote, if it wrote.
\<close>

definition is_hash :: "jstring \<Rightarrow> bool" where
  "is_hash h = (length h = 40 \<and> list_all hex_i h)"

definition root_lines :: "jstring list \<Rightarrow> jstring" where
  "root_lines hs = concat (map (\<lambda>h. h @ [10]) hs)"

definition no_valid_cache :: "git_env \<Rightarrow> jstring \<Rightarrow> bool" where
  "no_valid_cache env cacheFile =
     (if env_exists env cacheFile then
        (case env_text env cacheFile of
           Inl e \<Rightarrow> False
         | Inr txt \<Rightarrow> \<not> regex_test hex40Regex (trim txt) \<and> \<not> regex_test hex16Regex (trim txt))
      else True)"

definition after_call :: "git_env \<Rightarrow> id_outcome \<Rightarrow> git_env" where
  "after_call env out =
     (case cached out of
        None \<Rightarrow> env
      | Some (p, txt) \<Rightarrow>
          env\<lparr>env_exists := (env_exists env)(p := True), env_text := (env_text env)(p := Inr txt)\<rparr>)"

section \<open>Documents for the properties\<close>







text \<open>The code unit before the rest of a subject, once \<open>u\<close> has been consumed after \<open>p\<close>.\<close>

definition pafter :: "cu option \<Rightarrow> jstring \<Rightarrow> cu option" where
  "pafter p u = (if u = [] then p else Some (last u))"

section \<open>Example inputs\<close>

text \<open>Library messages for the examples: one text for every check.\<close>

definition demo_messages :: lib_messages where
  "demo_messages k v = ascii ''Invalid input''"

text \<open>Scenario A of the specification, and scenario B, with a second task marked current.\<close>

definition scenarioA :: jstring where
  "scenarioA =
     ascii ''---\<newline>status: in-progress\<newline>phase: 1\<newline>updated: 2025-01-01\<newline>---\<newline>## Goal\<newline>Ship the thing\<newline>## Phase 1: Setup [IN PROGRESS]\<newline>- [ ] 1.1 Do it ''
     @ [larr] @ ascii '' CURRENT\<newline>''"


text \<open>What extraction and validation give on the two scenarios.\<close>

definition fmA :: "jstring \<rightharpoonup> fmval" where
  "fmA =
     [ascii ''status'' \<mapsto> FStr (ascii ''in-progress''),
      ascii ''phase'' \<mapsto> FNum (Num 1),
      ascii ''updated'' \<mapsto> FStr (ascii ''2025-01-01'')]"

definition frontmatterA :: Frontmatter where
  "frontmatterA =
     \<lparr>status' = ascii ''in-progress'', phase = Num 1, updated = ascii ''2025-01-01''\<rparr>"

definition taskA :: Task where
  "taskA =
     \<lparr>id' = ascii ''1.1'', checked = False, content = ascii ''Do it'', isCurrent = True,
      citation = None\<rparr>"

definition taskB :: Task where
  "taskB =
     \<lparr>id' = ascii ''1.2'', checked = False, content = ascii ''Test it'', isCurrent = True,
      citation = None\<rparr>"

definition phasesA :: "Phase list" where
  "phasesA =
     [\<lparr>number = Num 1, name = ascii ''Setup'', status = ascii ''IN PROGRESS'', tasks = [taskA]\<rparr>]"

definition phasesB :: "Phase list" where
  "phasesB =
     [\<lparr>number = Num 1, name = ascii ''Setup'', status = ascii ''IN PROGRESS'',
       tasks = [taskA, taskB]\<rparr>]"

definition partsA :: ExtractedParts where
  "partsA = \<lparr>frontmatter = Some fmA, goal = Some (ascii ''Ship the thing''), phases = phasesA\<rparr>"

definition partsB :: ExtractedParts where
  "partsB = \<lparr>frontmatter = Some fmA, goal = Some (ascii ''Ship the thing''), phases = phasesB\<rparr>"

definition planA :: Plan where
  "planA =
     \<lparr>frontmatter' = frontmatterA, goal' = ascii ''Ship the thing'', context' = None,
      phases' = phasesA\<rparr>"

definition planB :: Plan where
  "planB =
     \<lparr>frontmatter' = frontmatterA, goal' = ascii ''Ship the thing'', context' = None,
      phases' = phasesB\<rparr>"

text \<open>
  A plugin instance and filesystems for the examples: paths are joined with a slash, no
  operation fails in \<open>demo_fs\<close>, and \<open>demo_fs_denied\<close> refuses to read the plan file of
  root session \<open>[9]\<close>.
\<close>

definition demo_plugin :: plugin where
  "demo_plugin =
     \<lparr>client = demo_sessions,
      path_join = (\<lambda>a b. a @ [47] @ b),
      messages = demo_messages,
      baseDir = ascii ''/home/u/.local/share/opencode/workspace/0123456789abcdef''\<rparr>"

definition demo_fs :: filesystem where
  "demo_fs =
     \<lparr>files = Map.empty, dirs = {}, mkdir_fails = Map.empty, write_fails = Map.empty,
      read_fails = Map.empty\<rparr>"

definition demo_denied :: js_error where
  "demo_denied = NodeError (ascii ''EACCES'') (ascii ''EACCES: permission denied'')"

definition demo_fs_denied :: filesystem where
  "demo_fs_denied = demo_fs\<lparr>read_fails := [plan_path demo_plugin [9] \<mapsto> demo_denied]\<rparr>"

definition demo_fs_saved :: filesystem where
  "demo_fs_saved = demo_fs\<lparr>files := [plan_path demo_plugin [9] \<mapsto> utf8_encode scenarioA]\<rparr>"

text \<open>Task lines with a citation, without the current marker and with it.\<close>

definition cited_line :: jstring where
  "cited_line = ascii ''- [x] 1.1 Do it `ref:abc-def-ghi`\<newline>''"

definition cited_current_line :: jstring where
  "cited_current_line =
     ascii ''- [x] 1.1 Do it '' @ [larr] @ ascii '' CURRENT  `ref:abc-def-ghi`\<newline>''"

text \<open>
  A repository for the examples: \<open>/repo/.git\<close> is a directory, its cache file holds a text
  that is no hash, and the digest is a fixed stand-in.
\<close>

definition hashA :: jstring where
  "hashA = ascii ''1f0c9a7e5b3d24680ace13579bdf02468ace1357''"

definition hashB :: jstring where
  "hashB = ascii ''9e107d9d372bb6826bd81d3542a419d6e277d4ac''"

definition demo_env :: git_env where
  "demo_env =
     \<lparr>env_join = (\<lambda>a b. a @ [47] @ b),
      env_resolve = (\<lambda>a b. b),
      env_stat = (\<lambda>p. if p = ascii ''/repo/.git'' then Some Directory else None),
      env_text = (\<lambda>p. Inr (ascii ''not-a-hash\<newline>'')),
      env_exists = (\<lambda>p. p = ascii ''/repo/.git/opencode''),
      env_rev_list = (\<lambda>d. SpawnThrows (Error [])),
      env_write = (\<lambda>p txt. None),
      env_sha256 = (\<lambda>p. ascii ''b5bb9d8014a0f9b1d61e21e796d78dccdf1352f23cd32812f4850b878ae4944c'')\<rparr>"




definition doc_hash_goal :: jstring where
  "doc_hash_goal =
     ascii ''---\<newline>status: in-progress\<newline>phase: 1\<newline>updated: 2025-01-01\<newline>---\<newline>## Goal\<newline>Fix issue #42 now\<newline>## Phase 1: Setup [PENDING]\<newline>- [ ] 1.1 Do it\<newline>''"

text \<open>
  The plain document with a high surrogate that has no partner at the end of its task
  line, the plan it stands for, and the text a file holds after it was written.
\<close>

definition doc_lone :: jstring where
  "doc_lone =
     ascii ''---\<newline>status: in-progress\<newline>phase: 1\<newline>updated: 2025-01-01\<newline>---\<newline>## Goal\<newline>Ship the thing\<newline>## Phase 1: Setup [PENDING]\<newline>- [ ] 1.1 Do it ''
     @ [55357, 10]"

definition doc_lone_read :: jstring where
  "doc_lone_read =
     ascii ''---\<newline>status: in-progress\<newline>phase: 1\<newline>updated: 2025-01-01\<newline>---\<newline>## Goal\<newline>Ship the thing\<newline>## Phase 1: Setup [PENDING]\<newline>- [ ] 1.1 Do it ''
     @ [65533, 10]"

definition plan_lone :: Plan where
  "plan_lone =
     \<lparr>frontmatter' = frontmatterA, goal' = ascii ''Ship the thing'', context' = None,
      phases' =
        [\<lparr>number = Num 1, name = ascii ''Setup'', status = ascii ''PENDING'',
          tasks = [\<lparr>id' = ascii ''1.1'', checked = False, content = ascii ''Do it '' @ [55357],
                    isCurrent = False, citation = None\<rparr>]\<rparr>]\<rparr>"





definition goal_too_short :: jstring where
  "goal_too_short = ascii ''[goal]: Goal must be at least 10 characters''"

section \<open>Properties of the matcher and of parsing\<close>


lemma pafter_Nil [simp]: "pafter p [] = p"
  by (simp add: pafter_def)

lemma m_Lit_Cons: "m (Lit a # rs) p (x # xs) c = (if x = a then m rs (Some x) xs c else None)"
  by (simp add: m.simps)

lemma m_Lit_Nil: "m (Lit a # rs) p [] c = None"
  by (simp add: m.simps)

lemma m_Cls_Cons: "m (Cls P # rs) p (x # xs) c = (if P x then m rs (Some x) xs c else None)"
  by (simp add: m.simps)

lemma m_Cls_Nil: "m (Cls P # rs) p [] c = None"
  by (simp add: m.simps)

lemma m_StarG_Nil: "m (Star Greedy P # rs) p [] c = m rs p [] c"
  by (simp add: m.simps)

lemma m_StarG_stop: "\<not> P x \<Longrightarrow> m (Star Greedy P # rs) p (x # xs) c = m rs p (x # xs) c"
  by (simp add: m.simps)



lemmas m_step =
  m.simps(1) m_Lit_Cons m_Lit_Nil m_Cls_Cons m_Cls_Nil m_StarG_Nil
  m.simps(6) m.simps(7) m.simps(8) m.simps(9) m.simps(10) m.simps(11) m.simps(12)

lemma m_length: "m rs p s c = Some (c', p', rest) \<Longrightarrow> length rest \<le> length s"
  supply m.simps [simp]
proof (induction rs p s c arbitrary: c' p' rest rule: m.induct)
  case (1 p s c)
  then show ?case by simp
next
  case (2 a rs p s c)
  then show ?case by (cases s) (fastforce split: if_splits)+
next
  case (3 P rs p s c)
  then show ?case by (cases s) (fastforce split: if_splits)+
next
  case (4 P rs p s c)
  show ?case
  proof (cases s)
    case Nil
    with 4 show ?thesis by simp
  next
    case (Cons x xs)
    show ?thesis
    proof (cases "P x")
      case True
      show ?thesis
      proof (cases "m (Star Greedy P # rs) (Some x) xs c")
        case None
        with "4.prems" Cons True have "m rs p s c = Some (c', p', rest)" by simp
        with "4.IH"(3) [OF Cons True None] show ?thesis by simp
      next
        case (Some r)
        with "4.prems" Cons True have "m (Star Greedy P # rs) (Some x) xs c = Some (c', p', rest)" by simp
        with "4.IH"(2) [OF Cons True] Cons show ?thesis by fastforce
      qed
    next
      case False
      with "4.prems" Cons have "m rs p s c = Some (c', p', rest)" by simp
      with "4.IH"(4) [OF Cons False] show ?thesis by simp
    qed
  qed
next
  case (5 P rs p s c)
  show ?case
  proof (cases "m rs p s c")
    case (Some r)
    with "5.prems" have "m rs p s c = Some (c', p', rest)" by simp
    with "5.IH"(1) show ?thesis by simp
  next
    case None
    with "5.prems" obtain x xs where s: "s = x # xs" and P: "P x"
      and r: "m (Star Lazy P # rs) (Some x) xs c = Some (c', p', rest)"
      by (cases s) (auto split: if_splits)
    from "5.IH"(2) [OF None s P r] s show ?thesis by simp
  qed
next
  case (6 qs rs p s c)
  then show ?case by simp
next
  case (7 a b rs p s c)
  then show ?case by (cases "m (a # rs) p s c") auto
next
  case (8 i r rs p s c)
  then show ?case by simp
next
  case (9 i s0 rs p s c)
  from "9.prems" have "m rs p s (c(i \<mapsto> take (length s0 - length s) s0)) = Some (c', p', rest)"
    by simp
  then show ?case by (rule "9.IH")
next
  case (10 r rs p s c)
  then show ?case by (cases "m [r] p s c") auto
next
  case (11 rs p s c)
  then show ?case by (simp split: if_splits)
next
  case (12 rs p s c)
  then show ?case by (simp split: if_splits)
next
  case (13 rs p s c)
  then show ?case by (cases p) (auto split: if_splits)
next
  case (14 rs p s c)
  then show ?case by (cases s) (auto split: if_splits)
qed

lemma m_Lit_progress: "m (Lit a # rs) p s c = Some (c', p', rest) \<Longrightarrow> length rest < length s"
  by (cases s) (auto simp: m_step split: if_splits dest: m_length)

lemma search_Lit_progress:
  "search (Lit a # rs) p s = Some (c', p', rest) \<Longrightarrow> length rest < length s"
proof (induction s arbitrary: p)
  case Nil
  then show ?case by (simp add: m_step)
next
  case (Cons x xs)
  show ?case
  proof (cases "m (Lit a # rs) p (x # xs) Map.empty")
    case None
    with Cons.prems have "search (Lit a # rs) (Some x) xs = Some (c', p', rest)" by simp
    from Cons.IH [OF this] show ?thesis by simp
  next
    case (Some r)
    with Cons.prems have "m (Lit a # rs) p (x # xs) Map.empty = Some (c', p', rest)" by simp
    then show ?thesis by (rule m_Lit_progress)
  qed
qed

lemma exec_all_Lit_total: "\<exists>ms. exec_all (Lit a # rs) p s = Some ms"
proof (induction "length s" arbitrary: s p rule: less_induct)
  case less
  show ?case
  proof (cases "search (Lit a # rs) p s")
    case None
    then show ?thesis by (subst exec_all.simps) simp
  next
    case (Some r)
    obtain c' p' rest where r: "r = (c', p', rest)" by (cases r)
    with Some have "length rest < length s" by (auto dest: search_Lit_progress)
    from less [OF this] obtain ms where "exec_all (Lit a # rs) p' rest = Some ms" by blast
    with Some r show ?thesis by (subst exec_all.simps) simp
  qed
qed

lemma phaseRegex_Lit: "\<exists>rs. phaseRegex = Lit 35 # rs"
  by (simp add: phaseRegex_def lits_def)

lemma taskRegex_Lit: "\<exists>rs. taskRegex = Lit 45 # rs"
  by (simp add: taskRegex_def lits_def)

lemma extract_tasks_total: "\<exists>ts. extract_tasks s = Some ts"
proof -
  from taskRegex_Lit obtain rs where "taskRegex = Lit 45 # rs" ..
  with exec_all_Lit_total [of 45 rs None s] show ?thesis
    by (auto simp: extract_tasks_def)
qed

lemma phase_of_match_total: "\<exists>ph. phase_of_match c = Some ph"
  using extract_tasks_total [of "group c 4"] by (auto simp: phase_of_match_def)

lemma phases_of_matches_total: "\<exists>phs. phases_of_matches cs = Some phs"
proof (induction cs)
  case Nil
  show ?case by simp
next
  case (Cons c cs)
  with phase_of_match_total [of c] show ?case by auto
qed

lemma extract_phases_total: "\<exists>phs. extract_phases doc = Some phs"
proof -
  from phaseRegex_Lit obtain rs where "phaseRegex = Lit 35 # rs" ..
  with exec_all_Lit_total [of 35 rs None doc] obtain ms where "exec_all phaseRegex None doc = Some ms"
    by auto
  with phases_of_matches_total [of ms] show ?thesis
    by (auto simp: extract_phases_def)
qed

lemma extractMarkdownParts_total: "\<exists>parts. extractMarkdownParts doc = Some parts"
  using extract_phases_total [of doc] by (auto simp: extractMarkdownParts_def)

lemma parsePlanMarkdown_total: "\<exists>r. parsePlanMarkdown lm doc = Some r"
proof -
  from extractMarkdownParts_total obtain parts where "extractMarkdownParts doc = Some parts" ..
  then show ?thesis
    by (simp add: parsePlanMarkdown_def parsePlanMarkdownWith_def Let_def split: sum.splits)
qed

lemma trim_blank:
  assumes "list_all is_space s"
  shows "trim s = []"
proof -
  from assms have d: "dropWhile is_space s = []"
    by (simp add: list_all_iff)
  show ?thesis
    unfolding trim_def d by simp
qed

text \<open>
  Claim C8. On an empty or white-space-only input \<open>parsePlanMarkdown\<close> returns the
  failure with the error \<open>Empty content provided\<close> and the fixed hint, whatever the
  extractor is, even one that never returns: extraction is not reached. And on every
  input \<open>parsePlanMarkdown\<close> returns a result; it has no exit by a throw.
\<close>

theorem parsePlanMarkdown_empty:
  assumes "list_all is_space doc"
  shows "parsePlanMarkdownWith extract lm doc = Some (Fail (ascii ''Empty content provided'') skillHint)
       \<and> parsePlanMarkdown lm doc = Some (Fail (ascii ''Empty content provided'') skillHint)
       \<and> (\<exists>r. parsePlanMarkdown lm doc' = Some r)"
  using assms parsePlanMarkdown_total [of lm doc']
  by (simp add: parsePlanMarkdown_def parsePlanMarkdownWith_def trim_blank)

theorem parsePlanMarkdown_empty_witness:
  "list_all is_space [32, 10, 9]
   \<and> parsePlanMarkdownWith (\<lambda>d. None) demo_messages [32, 10, 9]
       = Some (Fail (ascii ''Empty content provided'') skillHint)
   \<and> parsePlanMarkdown demo_messages [] = Some (Fail (ascii ''Empty content provided'') skillHint)
   \<and> (\<exists>r. parsePlanMarkdown demo_messages scenarioA = Some r)"
proof -
  have b: "list_all is_space [32, 10, 9]" by (simp add: is_space_def)
  have e: "list_all is_space []" by simp
  from parsePlanMarkdown_empty [OF b, of "\<lambda>d. None" demo_messages scenarioA]
       parsePlanMarkdown_empty [OF e, of extractMarkdownParts demo_messages scenarioA] b
  show ?thesis by simp
qed

section \<open>Properties of root session resolution\<close>

lemma walk_parents_chain:
  "parent_chain cl s k root \<Longrightarrow> depth + k < 10 \<Longrightarrow> walk_parents cl depth s = Inr root"
proof (induction k arbitrary: s depth)
  case 0
  then show ?case
    by (subst walk_parents.simps) (auto split: sum.splits)
next
  case (Suc k)
  from Suc.prems obtain resp p where
    r: "cl s = Inr resp" "truthy_parent resp = Some p" "parent_chain cl p k root"
    by (auto split: sum.splits option.splits)
  from Suc.prems have "(depth + 1) + k < 10" by simp
  with Suc.IH r(3) have "walk_parents cl (depth + 1) p = Inr root" by blast
  with r Suc.prems(2) show ?case
    by (subst walk_parents.simps) simp
qed

lemma walk_parents_links:
  "has_links cl s (10 - depth) \<Longrightarrow> depth \<le> 10 \<Longrightarrow> walk_parents cl depth s = Inl depth_exceeded"
proof (induction "10 - depth" arbitrary: s depth)
  case 0
  then show ?case
    by (subst walk_parents.simps) simp
next
  case (Suc n)
  then have d: "depth < 10" and n: "n = 10 - (depth + 1)" and sn: "10 - depth = Suc n"
    by simp_all
  from Suc.prems(1) sn obtain resp p where
    r: "cl s = Inr resp" "truthy_parent resp = Some p" "has_links cl p n"
    by (auto split: sum.splits option.splits)
  from Suc.hyps(1) [OF n] r(3) n d have "walk_parents cl (depth + 1) p = Inl depth_exceeded"
    by simp
  with r d show ?case
    by (subst walk_parents.simps) simp
qed

lemma has_links_mono: "has_links cl s k \<Longrightarrow> j \<le> k \<Longrightarrow> has_links cl s j"
proof (induction j arbitrary: s k)
  case 0
  then show ?case by simp
next
  case (Suc j)
  then obtain k' where k: "k = Suc k'" and j: "j \<le> k'"
    by (cases k) auto
  with Suc.prems(1) Suc.IH show ?case
    by (auto split: sum.splits option.splits)
qed

text \<open>
  Claim C4. In every session graph, from a starting session with a chain of exactly 9
  parent links, \<open>getRootSessionID\<close> returns the topmost ancestor, the first session
  without a parent. In every session graph, from a starting session with 11 or more
  parent links to follow (a longer chain, or a cycle), it throws the depth-exceeded error
  and returns no value. The two graphs are independent of each other.
\<close>

theorem getRootSessionID_depth:
  "(s \<noteq> [] \<longrightarrow> parent_chain cl s 9 root \<longrightarrow> getRootSessionID cl (Some s) = Inr root)
   \<and> (s' \<noteq> [] \<longrightarrow> 11 \<le> k \<longrightarrow> has_links cl' s' k
        \<longrightarrow> getRootSessionID cl' (Some s') = Inl depth_exceeded)"
proof (intro conjI impI)
  assume "s \<noteq> []" and "parent_chain cl s 9 root"
  from this(2) have "walk_parents cl 0 s = Inr root"
    by (rule walk_parents_chain) simp
  with \<open>s \<noteq> []\<close> show "getRootSessionID cl (Some s) = Inr root"
    by (simp add: getRootSessionID_def)
next
  assume "s' \<noteq> []" and "11 \<le> k" and "has_links cl' s' k"
  from this(2,3) have "has_links cl' s' (10 - 0)"
    by (auto intro: has_links_mono)
  then have "walk_parents cl' 0 s' = Inl depth_exceeded"
    by (rule walk_parents_links) simp
  with \<open>s' \<noteq> []\<close> show "getRootSessionID cl' (Some s') = Inl depth_exceeded"
    by (simp add: getRootSessionID_def)
qed

theorem getRootSessionID_depth_witness:
  "[0] \<noteq> ([] :: jstring) \<and> parent_chain demo_sessions [0] 9 [9]
   \<and> getRootSessionID demo_sessions (Some [0]) = Inr [9]
   \<and> [1] \<noteq> ([] :: jstring) \<and> (11 :: nat) \<le> 12 \<and> has_links cycle_sessions [1] 12
   \<and> getRootSessionID cycle_sessions (Some [1]) = Inl depth_exceeded"
proof -
  have c: "parent_chain demo_sessions [0] 9 [9]"
    by (simp add: demo_sessions_def truthy_parent_def eval_nat_numeral)
  have l: "has_links cycle_sessions [1] 12"
    by (simp add: cycle_sessions_def truthy_parent_def eval_nat_numeral)
  from getRootSessionID_depth [of "[0]" demo_sessions "[9]" "[1]" 12 cycle_sessions] c l
  show ?thesis by simp
qed

section \<open>Evaluation of the examples\<close>

lemmas regex_defs =
  fmRegex_def goalRegex_def phaseRegex_def taskRegex_def boldRegex_def tickRegex_def
  taskIdRegex_def citationRegex_def dateRegex_def
  lits_def plus_def opt_def any_cu_def dot_def lower_def hex_i_def
  is_digit_def is_space_def is_line_terminator_def larr_def

lemmas extract_defs =
  extractMarkdownParts_def extract_phases_def extract_frontmatter_def extract_goal_def
  match_group_def phase_of_match_def extract_tasks_def task_of_match_def group_def
  frontmatter_line_def ascii_def trim_def parseInt_def digits_value_def to_number_def
  max_safe_integer_def m.simps exec_all.simps remove_all.simps

lemmas schema_defs =
  PlanSchema_def FrontmatterSchema_def PhaseSchema_def TaskSchema_def check_goal_def
  check_enum_def check_positive_int_def check_string_min_def check_string_regex_def
  check_array_min1_def both_def issues_of_def fmval_js_def indexed_def regex_test_def
  PhaseStatus_def FrontmatterStatus_def max_safe_integer_def m.simps

lemmas example_defs =
  fmA_def frontmatterA_def taskA_def taskB_def phasesA_def phasesB_def partsA_def partsB_def
  planA_def planB_def

lemma extract_scenarioA: "extractMarkdownParts scenarioA = Some partsA"
  by (simp add: scenarioA_def example_defs extract_defs regex_defs)


lemma schema_scenarioA: "PlanSchema lm partsA = Inr planA"
  by (simp add: example_defs schema_defs regex_defs ascii_def)


lemma scenarioA_not_blank: "trim scenarioA \<noteq> []"
  by (simp add: scenarioA_def trim_def ascii_def is_space_def)

lemma parse_scenarioA: "parsePlanMarkdown lm scenarioA = Some (Ok planA [])"
proof -
  have "count_current (phases' planA) = 1" "count_in_progress (phases' planA) = 1"
    by (simp_all add: count_current_def count_in_progress_def example_defs)
  with extract_scenarioA schema_scenarioA [of lm] scenarioA_not_blank show ?thesis
    by (simp add: parsePlanMarkdown_def parsePlanMarkdownWith_def partsA_def)
qed

lemmas parse_defs =
  parsePlanMarkdown_def parsePlanMarkdownWith_def count_current_def count_in_progress_def
  formatZodErrors_def format_issue_def skillHint_def


lemma parse_doc_lone: "parsePlanMarkdown lm doc_lone = Some (Ok plan_lone [])"
  by (simp add: doc_lone_def plan_lone_def example_defs parse_defs extract_defs schema_defs regex_defs
        show_nat.simps)


lemma parse_doc_hash_goal: "parsePlanMarkdown lm doc_hash_goal = Some (Fail goal_too_short skillHint)"
  by (simp add: doc_hash_goal_def goal_too_short_def parse_defs extract_defs schema_defs regex_defs
        show_nat.simps)

section \<open>Properties of the encoding\<close>

lemma split2:
  fixes c :: nat
  shows "c div 64 * 64 + c mod 64 = c"
  by simp

lemma split3:
  fixes c :: nat
  shows "(c div 4096 * 64 + c div 64 mod 64) * 64 + c mod 64 = c"
proof -
  have "c div 4096 = c div 64 div 64"
    by (simp add: div_mult2_eq [symmetric])
  then have "c div 4096 * 64 + c div 64 mod 64 = c div 64"
    by simp
  then show ?thesis by simp
qed

lemma split4:
  fixes c :: nat
  shows "((c div 262144 * 64 + c div 4096 mod 64) * 64 + c div 64 mod 64) * 64 + c mod 64 = c"
proof -
  have "c div 262144 = c div 4096 div 64"
    by (simp add: div_mult2_eq [symmetric])
  then have "c div 262144 * 64 + c div 4096 mod 64 = c div 4096"
    by simp
  with split3 [of c] show ?thesis by (simp only:)
qed

lemma decode_unit:
  assumes "c < 65536"
  shows "decode_from 0 a lo hi (encode_unit c @ bs)
           = (if is_surrogate c then 65533 else c) # decode_from 0 0 128 191 bs"
proof -
  consider "c < 128" | "128 \<le> c" "c < 2048" | "2048 \<le> c" "is_surrogate c"
    | "2048 \<le> c" "\<not> is_surrogate c"
    by linarith
  then show ?thesis
  proof cases
    case 1
    then show ?thesis
      by (simp add: encode_unit_def is_surrogate_def is_high_surrogate_def is_low_surrogate_def)
  next
    case 2
    define q r where "q = c div 64" and "r = c mod 64"
    have r: "r < 64" and c: "q * 64 + r = c"
      unfolding q_def r_def by simp_all
    from 2 r c have q: "2 \<le> q" "q \<le> 31"
      by linarith+
    from 2 have e: "encode_unit c = [192 + q, 128 + r]"
      by (simp add: encode_unit_def q_def r_def)
    from 2 have s: "\<not> is_surrogate c"
      by (simp add: is_surrogate_def is_high_surrogate_def is_low_surrogate_def)
    show ?thesis
      unfolding e using q r c s 2 by (simp add: code_units_def)
  next
    case 3
    then show ?thesis
      by (simp add: encode_unit_def code_units_def)
  next
    case 4
    define p q r where "p = c div 4096" and "q = c div 64 mod 64" and "r = c mod 64"
    have q: "q < 64" and r: "r < 64"
      unfolding q_def r_def by simp_all
    have c: "(p * 64 + q) * 64 + r = c"
      unfolding p_def q_def r_def by (rule split3)
    then have c': "p * 4096 + q * 64 + r = c"
      by simp
    from 4 assms q r c' have p: "p \<le> 15"
      by linarith
    from 4 q r c' have lo: "p = 0 \<Longrightarrow> 32 \<le> q"
      by linarith
    from 4 q r c' have hi: "p = 13 \<Longrightarrow> q \<le> 31"
      unfolding is_surrogate_def is_high_surrogate_def is_low_surrogate_def by linarith
    from 4 have e: "encode_unit c = [224 + p, 128 + q, 128 + r]"
      by (simp add: encode_unit_def p_def q_def r_def)
    show ?thesis
      unfolding e using p q r c lo hi 4 assms by (simp add: code_units_def)
  qed
qed

lemma decode_pair:
  assumes "is_high_surrogate h" and "is_low_surrogate l"
  shows "decode_from 0 a lo hi (encode_pair h l @ bs) = h # l # decode_from 0 0 128 191 bs"
proof -
  define cp where "cp = 65536 + (h - 55296) * 1024 + (l - 56320)"
  define x y where "x = h - 55296" and "y = l - 56320"
  from assms have x: "x \<le> 1023" "h = 55296 + x" and y: "y \<le> 1023" "l = 56320 + y"
    unfolding x_def y_def is_high_surrogate_def is_low_surrogate_def by linarith+
  have cpxy: "cp = 65536 + x * 1024 + y"
    by (simp add: cp_def x_def y_def)
  with x(1) y(1) have cp: "65536 \<le> cp" "cp < 1114112"
    by simp_all
  define p q r t where "p = cp div 262144" and "q = cp div 4096 mod 64" and "r = cp div 64 mod 64"
    and "t = cp mod 64"
  have q: "q < 64" and r: "r < 64" and t: "t < 64"
    unfolding q_def r_def t_def by simp_all
  have v: "((p * 64 + q) * 64 + r) * 64 + t = cp"
    unfolding p_def q_def r_def t_def by (rule split4)
  from v have v': "p * 262144 + q * 4096 + r * 64 + t = cp"
    by simp
  from cp q r t v' have p: "p \<le> 4"
    by linarith
  from cp q r t v' have lo: "p = 0 \<Longrightarrow> 16 \<le> q"
    by linarith
  from cp q r t v' have hi: "p = 4 \<Longrightarrow> q \<le> 15"
    by linarith
  from x(1) y(1) have hl: "(cp - 65536) div 1024 = x" "(cp - 65536) mod 1024 = y"
    by (simp_all add: cpxy)
  have e: "encode_pair h l = [240 + p, 128 + q, 128 + r, 128 + t]"
    by (simp add: encode_pair_def cp_def p_def q_def r_def t_def Let_def)
  show ?thesis
    unfolding e using p q r t v lo hi hl cp x(2) y(2)
    by (simp add: code_units_def)
qed

lemma decode_encode:
  "list_all (\<lambda>c. c < 65536) s \<Longrightarrow> utf8_decode (utf8_encode s) = scrub s"
  unfolding utf8_decode_def
proof (induction s rule: utf8_encode.induct)
  case 1
  show ?case by simp
next
  case (2 c)
  then show ?case
    using decode_unit [of c 0 128 191 "[]"] by simp
next
  case (3 c d ds)
  show ?case
  proof (cases "is_high_surrogate c \<and> is_low_surrogate d")
    case True
    then have "utf8_encode (c # d # ds) = encode_pair c d @ utf8_encode ds"
      and "scrub (c # d # ds) = c # d # scrub ds"
      by simp_all
    with True 3 show ?thesis by (simp add: decode_pair)
  next
    case False
    then have "utf8_encode (c # d # ds) = encode_unit c @ utf8_encode (d # ds)"
      and "scrub (c # d # ds) = (if is_surrogate c then 65533 else c) # scrub (d # ds)"
      by auto
    with False 3 show ?thesis by (simp add: decode_unit)
  qed
qed

lemma scrub_paired: "(scrub s = s) = paired s"
  by (induction s rule: scrub.induct)
     (auto simp: is_surrogate_def is_high_surrogate_def is_low_surrogate_def)

lemma scenarioA_text: "utf8_decode (utf8_encode scenarioA) = scenarioA"
proof -
  have "list_all (\<lambda>c. c < 65536) scenarioA" and "paired scenarioA"
    by (simp_all add: scenarioA_def ascii_def larr_def is_surrogate_def is_high_surrogate_def
          is_low_surrogate_def)
  then show ?thesis
    by (simp add: decode_encode scrub_paired)
qed

lemma doc_lone_text:
  "list_all (\<lambda>c. c < 65536) doc_lone" "scrub doc_lone = doc_lone_read" "doc_lone_read \<noteq> doc_lone"
  by (simp_all add: doc_lone_def doc_lone_read_def ascii_def is_surrogate_def is_high_surrogate_def
        is_low_surrogate_def)

section \<open>Properties of the plan store\<close>

lemma getRootSessionID_Some: "getRootSessionID cl sid = Inr r \<Longrightarrow> sid \<noteq> None \<and> sid \<noteq> Some []"
  by (auto simp: getRootSessionID_def split: option.splits if_splits)

lemma demo_root:
  "getRootSessionID demo_sessions (Some [0]) = Inr [9]"
  "getRootSessionID demo_sessions (Some [5]) = Inr [9]"
proof -
  have "parent_chain demo_sessions [0] 9 [9]"
    by (simp add: demo_sessions_def truthy_parent_def eval_nat_numeral)
  then have "walk_parents demo_sessions 0 [0] = Inr [9]"
    by (rule walk_parents_chain) simp
  then show "getRootSessionID demo_sessions (Some [0]) = Inr [9]"
    by (simp add: getRootSessionID_def)
  have "parent_chain demo_sessions [5] 4 [9]"
    by (simp add: demo_sessions_def truthy_parent_def eval_nat_numeral)
  then have "walk_parents demo_sessions 0 [5] = Inr [9]"
    by (rule walk_parents_chain) simp
  then show "getRootSessionID demo_sessions (Some [5]) = Inr [9]"
    by (simp add: getRootSessionID_def)
qed

lemma fs_readFile_missing:
  "read_fails fs p = None \<Longrightarrow> files fs p = None \<Longrightarrow> fs_readFile fs p = Inl (enoent p)"
  by (simp add: fs_readFile_def)

text \<open>
  Claim C7. In a call of \<open>plan_read\<close> with a session that resolves to a root session:
  when the read of the plan path fails with the file-not-found error (code \<open>ENOENT\<close>, as
  it does when no file exists there), \<open>plan_read\<close> returns the text \<open>No plan found.\<close>
  and does not throw; when the read fails with any other error, \<open>plan_read\<close> throws that
  error, unchanged.
\<close>

theorem plan_read_missing:
  assumes "getRootSessionID (client pl) (Some sid) = Inr rootID"
    and "fs_readFile fs (plan_path pl rootID) = Inl e"
    and "error_code e = Some (ascii ''ENOENT'')"
    and "fs_readFile fs' (plan_path pl rootID) = Inl e'"
    and "error_code e' \<noteq> Some (ascii ''ENOENT'')"
  shows "plan_read pl fs (Some sid) = Some (Inr (ascii ''No plan found.''), fs)
       \<and> plan_read pl fs' (Some sid) = Some (Inl e', fs')"
proof -
  from assms(1) have s: "sid \<noteq> []"
    by (auto dest: getRootSessionID_Some)
  from assms(3) have n: "isNodeError e"
    by (cases e) (simp_all add: error_code_def isNodeError_def)
  from s n assms show ?thesis
    by (simp add: plan_read_def)
qed

theorem plan_read_missing_witness:
  "getRootSessionID (client demo_plugin) (Some [0]) = Inr [9]
   \<and> fs_readFile demo_fs (plan_path demo_plugin [9]) = Inl (enoent (plan_path demo_plugin [9]))
   \<and> error_code (enoent (plan_path demo_plugin [9])) = Some (ascii ''ENOENT'')
   \<and> fs_readFile demo_fs_denied (plan_path demo_plugin [9]) = Inl demo_denied
   \<and> error_code demo_denied \<noteq> Some (ascii ''ENOENT'')
   \<and> plan_read demo_plugin demo_fs (Some [0]) = Some (Inr (ascii ''No plan found.''), demo_fs)
   \<and> plan_read demo_plugin demo_fs_denied (Some [0]) = Some (Inl demo_denied, demo_fs_denied)"
proof -
  have r: "getRootSessionID (client demo_plugin) (Some [0]) = Inr [9]"
    using demo_root by (simp add: demo_plugin_def)
  have a: "fs_readFile demo_fs (plan_path demo_plugin [9]) = Inl (enoent (plan_path demo_plugin [9]))"
    by (simp add: fs_readFile_def demo_fs_def)
  have b: "error_code (enoent (plan_path demo_plugin [9])) = Some (ascii ''ENOENT'')"
    by (simp add: error_code_def enoent_def)
  have c: "fs_readFile demo_fs_denied (plan_path demo_plugin [9]) = Inl demo_denied"
    by (simp add: fs_readFile_def demo_fs_denied_def)
  have d: "error_code demo_denied \<noteq> Some (ascii ''ENOENT'')"
    by (simp add: error_code_def demo_denied_def ascii_def)
  from plan_read_missing [OF r a b c d] r a b c d show ?thesis by simp
qed

text \<open>
  Claim C9. When the content fails validation, \<open>plan_save\<close> writes no plan file: the
  files are as they were, whatever the session argument is and however the call ends.
  When the session resolves to a root session and its directory can be made, the call
  returns the formatted validation error, and a read of the plan path gives what it gave
  before the call.
\<close>

theorem plan_save_invalid:
  assumes "parsePlanMarkdown (messages pl) doc = Some (Fail err hint)"
    and "getRootSessionID (client pl) (Some sid) = Inr rootID"
    and "mkdir_fails fs (path_join pl (baseDir pl) rootID) = None"
  shows "(\<exists>fs'. plan_save pl fs doc (Some sid) = Some (Inr (formatParseError err hint), fs')
              \<and> files fs' = files fs
              \<and> fs_readFile fs' (plan_path pl rootID) = fs_readFile fs (plan_path pl rootID))
       \<and> (\<exists>out fs'. plan_save pl fs doc anySession = Some (out, fs') \<and> files fs' = files fs)"
proof -
  from assms(2) have s: "sid \<noteq> []"
    by (auto dest: getRootSessionID_Some)
  from s assms have "plan_save pl fs doc (Some sid)
      = Some (Inr (formatParseError err hint), fs\<lparr>dirs := insert (path_join pl (baseDir pl) rootID) (dirs fs)\<rparr>)"
    by (simp add: plan_save_def fs_mkdir_def)
  then have 1: "\<exists>fs'. plan_save pl fs doc (Some sid) = Some (Inr (formatParseError err hint), fs')
              \<and> files fs' = files fs
              \<and> fs_readFile fs' (plan_path pl rootID) = fs_readFile fs (plan_path pl rootID)"
    by (simp add: fs_readFile_def split: option.splits)
  have 2: "\<exists>out fs'. plan_save pl fs doc anySession = Some (out, fs') \<and> files fs' = files fs"
    using assms(1)
    by (auto simp: plan_save_def fs_mkdir_def split: sum.splits option.splits)
  from 1 2 show ?thesis ..
qed

theorem plan_save_invalid_witness:
  "parsePlanMarkdown (messages demo_plugin) [] = Some (Fail (ascii ''Empty content provided'') skillHint)
   \<and> getRootSessionID (client demo_plugin) (Some [0]) = Inr [9]
   \<and> mkdir_fails demo_fs_saved (path_join demo_plugin (baseDir demo_plugin) [9]) = None
   \<and> (\<exists>fs'. plan_save demo_plugin demo_fs_saved [] (Some [0])
                = Some (Inr (formatParseError (ascii ''Empty content provided'') skillHint), fs')
              \<and> files fs' = files demo_fs_saved
              \<and> fs_readFile fs' (plan_path demo_plugin [9]) = Inr scenarioA)
   \<and> (\<exists>out fs'. plan_save demo_plugin demo_fs_saved [] None = Some (out, fs')
              \<and> files fs' = files demo_fs_saved)"
proof -
  have p: "parsePlanMarkdown (messages demo_plugin) []
             = Some (Fail (ascii ''Empty content provided'') skillHint)"
    by (simp add: parsePlanMarkdown_def parsePlanMarkdownWith_def trim_def)
  have r: "getRootSessionID (client demo_plugin) (Some [0]) = Inr [9]"
    using demo_root by (simp add: demo_plugin_def)
  have k: "mkdir_fails demo_fs_saved (path_join demo_plugin (baseDir demo_plugin) [9]) = None"
    by (simp add: demo_fs_saved_def demo_fs_def)
  have f: "fs_readFile demo_fs_saved (plan_path demo_plugin [9]) = Inr scenarioA"
    by (simp add: fs_readFile_def demo_fs_saved_def demo_fs_def scenarioA_text)
  from plan_save_invalid [OF p r k, of None] p r k f show ?thesis by simp
qed

text \<open>
  Claim C6, as the code has it. When a text passes validation and \<open>plan_save\<close> stores it
  (the session resolves to a root session, and making the directory and writing the file
  do not fail), a following \<open>plan_read\<close> from any session with the same root session,
  under the same project identity, returns the text with every unpaired surrogate
  replaced by U+FFFD. That is exactly the text saved when, and only when, the text has no
  unpaired surrogate. The text is a JavaScript string: its code units are below \<open>2^16\<close>.
\<close>

theorem plan_save_read_roundtrip:
  assumes "parsePlanMarkdown (messages pl) doc = Some (Ok data warnings)"
    and "getRootSessionID (client pl) (Some sid) = Inr rootID"
    and "getRootSessionID (client pl) (Some sid') = Inr rootID"
    and "mkdir_fails fs (path_join pl (baseDir pl) rootID) = None"
    and "write_fails fs (plan_path pl rootID) = None"
    and "read_fails fs (plan_path pl rootID) = None"
    and "list_all (\<lambda>c. c < 65536) doc"
  shows "\<exists>msg fs'. plan_save pl fs doc (Some sid) = Some (Inr msg, fs')
                  \<and> plan_read pl fs' (Some sid') = Some (Inr (scrub doc), fs')
                  \<and> (scrub doc = doc) = paired doc"
proof -
  from assms(2) have s: "sid \<noteq> []"
    by (auto dest: getRootSessionID_Some)
  from assms(3) have s': "sid' \<noteq> []"
    by (auto dest: getRootSessionID_Some)
  from s s' assms(1-6) decode_encode [OF assms(7)] show ?thesis
    by (simp add: plan_save_def plan_read_def fs_mkdir_def fs_writeFile_def fs_readFile_def
          scrub_paired)
qed

theorem plan_save_read_roundtrip_witness:
  "parsePlanMarkdown (messages demo_plugin) scenarioA = Some (Ok planA [])
   \<and> getRootSessionID (client demo_plugin) (Some [0]) = Inr [9]
   \<and> getRootSessionID (client demo_plugin) (Some [5]) = Inr [9]
   \<and> mkdir_fails demo_fs (path_join demo_plugin (baseDir demo_plugin) [9]) = None
   \<and> write_fails demo_fs (plan_path demo_plugin [9]) = None
   \<and> read_fails demo_fs (plan_path demo_plugin [9]) = None
   \<and> list_all (\<lambda>c. c < 65536) scenarioA
   \<and> paired scenarioA
   \<and> (\<exists>msg fs'. plan_save demo_plugin demo_fs scenarioA (Some [0]) = Some (Inr msg, fs')
                \<and> plan_read demo_plugin fs' (Some [5]) = Some (Inr scenarioA, fs'))"
proof -
  have p: "parsePlanMarkdown (messages demo_plugin) scenarioA = Some (Ok planA [])"
    by (rule parse_scenarioA)
  have r: "getRootSessionID (client demo_plugin) (Some [0]) = Inr [9]"
    and r': "getRootSessionID (client demo_plugin) (Some [5]) = Inr [9]"
    using demo_root by (simp_all add: demo_plugin_def)
  have k: "mkdir_fails demo_fs (path_join demo_plugin (baseDir demo_plugin) [9]) = None"
    and w: "write_fails demo_fs (plan_path demo_plugin [9]) = None"
    and f: "read_fails demo_fs (plan_path demo_plugin [9]) = None"
    by (simp_all add: demo_fs_def)
  have u: "list_all (\<lambda>c. c < 65536) scenarioA" and q: "paired scenarioA"
    by (simp_all add: scenarioA_def ascii_def larr_def is_surrogate_def is_high_surrogate_def
          is_low_surrogate_def)
  from q have e: "scrub scenarioA = scenarioA"
    by (simp add: scrub_paired)
  from plan_save_read_roundtrip [OF p r r' k w f u] p r r' k w f u q e show ?thesis by simp
qed

text \<open>
  The claim as it was stated covers every text that passes validation. A text with a
  high surrogate that has no partner passes validation and is stored; what
  \<open>plan_read\<close> returns has U+FFFD in its place.
\<close>

theorem plan_save_read_roundtrip_counterexample:
  "parsePlanMarkdown (messages demo_plugin) doc_lone = Some (Ok plan_lone [])
   \<and> (\<exists>msg fs'. plan_save demo_plugin demo_fs doc_lone (Some [0]) = Some (Inr msg, fs')
                \<and> plan_read demo_plugin fs' (Some [5]) = Some (Inr doc_lone_read, fs'))
   \<and> doc_lone_read \<noteq> doc_lone"
proof -
  have p: "parsePlanMarkdown (messages demo_plugin) doc_lone = Some (Ok plan_lone [])"
    by (rule parse_doc_lone)
  have r: "getRootSessionID (client demo_plugin) (Some [0]) = Inr [9]"
    and r': "getRootSessionID (client demo_plugin) (Some [5]) = Inr [9]"
    using demo_root by (simp_all add: demo_plugin_def)
  have t: "utf8_decode (utf8_encode doc_lone) = doc_lone_read"
    using doc_lone_text by (simp add: decode_encode)
  have "plan_save demo_plugin demo_fs doc_lone (Some [0])
          = Some (Inr (ascii ''Plan saved.''),
                  demo_fs\<lparr>dirs := {path_join demo_plugin (baseDir demo_plugin) [9]},
                          files := [plan_path demo_plugin [9] \<mapsto> utf8_encode doc_lone]\<rparr>)"
    using p r by (simp add: plan_save_def fs_mkdir_def fs_writeFile_def demo_fs_def)
  moreover have "plan_read demo_plugin
          (demo_fs\<lparr>dirs := {path_join demo_plugin (baseDir demo_plugin) [9]},
                   files := [plan_path demo_plugin [9] \<mapsto> utf8_encode doc_lone]\<rparr>) (Some [5])
          = Some (Inr doc_lone_read,
                  demo_fs\<lparr>dirs := {path_join demo_plugin (baseDir demo_plugin) [9]},
                          files := [plan_path demo_plugin [9] \<mapsto> utf8_encode doc_lone]\<rparr>)"
    using r' t by (simp add: plan_read_def fs_readFile_def demo_fs_def)
  ultimately show ?thesis
    using p doc_lone_text(3) by blast
qed

section \<open>Properties of the schema and of the business rules\<close>















lemma search_Bol_later: "search (Bol # rs) (Some y) s = None"
  by (induction s arbitrary: y) (simp_all add: m_step)












section \<open>Citations on task lines\<close>

text \<open>
  Claim C5 says that the citation token of a task line is captured into the task's
  \<open>citation\<close> field and is not left in its \<open>content\<close>. The code, on a task line that
  ends in a citation: without the current marker the citation stays in the content and
  the \<open>citation\<close> field is absent; with the marker and the two spaces of the documented
  format the citation is in neither field.
\<close>

theorem extract_tasks_citation_lost:
  "extract_tasks cited_line
     = Some [\<lparr>id' = ascii ''1.1'', checked = True, content = ascii ''Do it `ref:abc-def-ghi`'',
              isCurrent = False, citation = None\<rparr>]
   \<and> extract_tasks cited_current_line
     = Some [\<lparr>id' = ascii ''1.1'', checked = True, content = ascii ''Do it'',
              isCurrent = True, citation = None\<rparr>]"
  by (simp add: cited_line_def cited_current_line_def extract_defs regex_defs)

section \<open>Properties of the project identity\<close>

lemma m_replicate_Cls_Eol:
  "(m (replicate n (Cls P) @ [Eol]) p s c \<noteq> None) = (length s = n \<and> list_all P s)"
proof (induction n arbitrary: p s)
  case 0
  show ?case by (simp add: m_step)
next
  case (Suc n)
  show ?case
  proof (cases s)
    case Nil
    then show ?thesis by (simp add: m_step)
  next
    case (Cons x xs)
    with Suc.IH [of "Some x" xs] show ?thesis by (simp add: m_step)
  qed
qed

lemma search_Bol_start: "search (Bol # rs) None s = m rs None s Map.empty"
  by (cases s) (simp_all add: search_Bol_later m_step split: option.splits)

lemma regex_test_hex40: "regex_test hex40Regex s = (length s = 40 \<and> list_all hex_i s)"
  unfolding regex_test_def hex40Regex_def
  by (simp only: append_Cons append_Nil search_Bol_start m_replicate_Cls_Eol)

lemma regex_test_hex16: "regex_test hex16Regex s = (length s = 16 \<and> list_all hex_i s)"
  unfolding regex_test_def hex16Regex_def
  by (simp only: append_Cons append_Nil search_Bol_start m_replicate_Cls_Eol)

lemma split_on_line: "sep \<notin> set h \<Longrightarrow> split_on sep (h @ sep # rest) = h # split_on sep rest"
  by (induction h) auto

lemma split_on_lines:
  "list_all (\<lambda>h. 10 \<notin> set h) hs \<Longrightarrow> split_on 10 (root_lines hs) = hs @ [[]]"
  by (induction hs) (simp_all add: root_lines_def split_on_line)

lemma hex_i_not_space: "hex_i c \<Longrightarrow> \<not> is_space c"
  by (auto simp: hex_i_def is_space_def is_digit_def)

lemma trim_no_space: "list_all (\<lambda>c. \<not> is_space c) s \<Longrightarrow> trim s = s"
proof -
  assume a: "list_all (\<lambda>c. \<not> is_space c) s"
  have d: "list_all (\<lambda>c. \<not> is_space c) t \<Longrightarrow> dropWhile is_space t = t" for t
    by (cases t) simp_all
  from a have "list_all (\<lambda>c. \<not> is_space c) (rev s)" by (simp add: list_all_iff)
  with a show ?thesis by (simp add: trim_def d)
qed

lemma is_hash_facts:
  assumes "is_hash h"
  shows "h \<noteq> []" and "10 \<notin> set h" and "trim h = h" and "regex_test hex40Regex h"
proof -
  from assms have l: "length h = 40" and x: "list_all hex_i h"
    by (simp_all add: is_hash_def)
  from l show "h \<noteq> []" by auto
  from x have ns: "list_all (\<lambda>c. \<not> is_space c) h"
    by (auto simp: list_all_iff dest: hex_i_not_space)
  then show "trim h = h" by (rule trim_no_space)
  from ns show "10 \<notin> set h" by (auto simp: list_all_iff is_space_def)
  from l x show "regex_test hex40Regex h" by (simp add: regex_test_hex40)
qed

lemma sorted_roots:
  assumes "list_all is_hash hs"
  shows "sort (map trim (filter (\<lambda>l. l \<noteq> []) (split_on 10 (root_lines hs)))) = sort hs"
proof -
  from assms have "list_all (\<lambda>h. 10 \<notin> set h) hs"
    by (auto simp: list_all_iff dest: is_hash_facts)
  then have "split_on 10 (root_lines hs) = hs @ [[]]" by (rule split_on_lines)
  moreover from assms have "filter (\<lambda>l. l \<noteq> []) hs = hs"
    by (auto simp: list_all_iff dest: is_hash_facts intro: filter_True)
  moreover from assms have "map trim hs = hs"
    by (auto simp: list_all_iff dest: is_hash_facts intro: map_idI)
  ultimately show ?thesis by simp
qed

lemma sort_first_Min:
  assumes "sort xs = r # rs"
  shows "r = Min (set xs)"
proof -
  have s: "sorted (r # rs)" and e: "set (r # rs) = set xs"
    using sorted_sort set_sort assms
    by (metis, metis)
  from s have "\<forall>y \<in> set (r # rs). r \<le> y" by auto
  with e have "\<forall>y \<in> set xs. r \<le> y" by simp
  moreover from e have "r \<in> set xs" by auto
  ultimately show ?thesis by (intro Min_eqI [symmetric]) auto
qed

lemma generate_id_roots:
  assumes "env_rev_list env projectRoot = Exited 0 (root_lines hs) err"
    and "hs \<noteq> []" and "list_all is_hash hs"
  shows "result (generate_id env projectRoot cacheFile ws) = Inr (Min (set hs))"
proof -
  from assms(2) obtain r rs where s: "sort hs = r # rs"
    by (cases "sort hs") (auto dest: arg_cong [where f = length])
  then have r: "r = Min (set hs)" by (rule sort_first_Min)
  with assms(2) have "r \<in> set hs" by simp
  with assms(3) have "regex_test hex40Regex r"
    by (auto simp: list_all_iff dest: is_hash_facts)
  with assms s r show ?thesis
    by (simp add: generate_id_def sorted_roots split: option.splits)
qed

lemma generate_id_returns:
  "\<exists>v. result (generate_id env projectRoot cacheFile ws) = Inr v
       \<and> (regex_test hex40Regex v \<or> v = hashPath env projectRoot)"
  by (simp add: generate_id_def split: spawn_result.splits list.splits option.splits)

lemma resolve_git_dir_rev_list:
  "resolve_git_dir (env\<lparr>env_rev_list := git\<rparr>) projectRoot gitPath gitStat
     = resolve_git_dir env projectRoot gitPath gitStat"
  by (simp add: resolve_git_dir_def Let_def cong: sum.case_cong option.case_cong if_cong)

lemma hashPath_rev_list: "hashPath (env\<lparr>env_rev_list := git\<rparr>) projectRoot = hashPath env projectRoot"
  by (simp add: hashPath_def)

lemma getProjectId_regenerates:
  assumes "projectRoot \<noteq> []"
    and "env_stat env (env_join env projectRoot (ascii ''.git'')) = Some gitStat"
    and "resolve_git_dir env projectRoot (env_join env projectRoot (ascii ''.git'')) gitStat = Inr gitDir"
    and "no_valid_cache env (env_join env gitDir (ascii ''opencode''))"
  shows "getProjectId env projectRoot
           = generate_id env projectRoot (env_join env gitDir (ascii ''opencode''))
               (if env_exists env (env_join env gitDir (ascii ''opencode''))
                then [InvalidCache (env_join env gitDir (ascii ''opencode''))] else [])"
  using assms
  by (auto simp: getProjectId_def no_valid_cache_def Let_def split: sum.splits)

lemma hashPath_hex16:
  assumes "length (env_sha256 env projectRoot) = 64" and "list_all hex_i (env_sha256 env projectRoot)"
  shows "regex_test hex16Regex (hashPath env projectRoot)"
proof -
  from assms(2) have "list_all hex_i (take 16 (env_sha256 env projectRoot))"
    by (auto simp: list_all_iff dest: in_set_takeD)
  with assms(1) show ?thesis
    by (simp add: regex_test_hex16 hashPath_def)
qed

lemma generate_id_cached:
  "cached (generate_id env projectRoot cacheFile ws) = Some (p, t)
   \<Longrightarrow> p = cacheFile \<and> result (generate_id env projectRoot cacheFile ws) = Inr t"
  by (auto simp: generate_id_def split: spawn_result.splits list.splits option.splits if_splits)

lemma getProjectId_cache_hit:
  assumes "projectRoot \<noteq> []"
    and "env_stat env (env_join env projectRoot (ascii ''.git'')) = Some gitStat"
    and "resolve_git_dir env projectRoot (env_join env projectRoot (ascii ''.git'')) gitStat = Inr gitDir"
    and "env_exists env (env_join env gitDir (ascii ''opencode''))"
    and "env_text env (env_join env gitDir (ascii ''opencode'')) = Inr h"
    and "is_hash h"
  shows "result (getProjectId env projectRoot) = Inr h"
  using assms is_hash_facts [of h]
  by (simp add: getProjectId_def Let_def)

text \<open>
  Claim C3. Where the cache file cannot be trusted (there is none, or its trimmed text has
  neither hash shape) and the git command lists the root commit hashes \<open>hs\<close>,
  \<open>getProjectId\<close> returns the smallest hash in lexicographic order; it returns the same
  for any enumeration \<open>hs'\<close> of the same hashes; and a second call, in the world the first
  one left, returns it again. Whatever the git command does, the call returns a value and
  throws nothing, and the value is never the trimmed text of the untrusted cache file.
\<close>

theorem getProjectId_deterministic:
  assumes root: "projectRoot \<noteq> []"
    and stat: "env_stat env (env_join env projectRoot (ascii ''.git'')) = Some gitStat"
    and dir: "resolve_git_dir env projectRoot (env_join env projectRoot (ascii ''.git'')) gitStat = Inr gitDir"
    and cf: "cacheFile = env_join env gitDir (ascii ''opencode'')"
    and cache: "no_valid_cache env cacheFile"
    and sha: "length (env_sha256 env projectRoot) = 64" "list_all hex_i (env_sha256 env projectRoot)"
    and hs: "hs \<noteq> []" "list_all is_hash hs" "set hs' = set hs"
    and first: "first = getProjectId (env\<lparr>env_rev_list := \<lambda>d. Exited 0 (root_lines hs) err\<rparr>) projectRoot"
    and again: "resolve_git_dir (after_call (env\<lparr>env_rev_list := \<lambda>d. Exited 0 (root_lines hs') err'\<rparr>) first)
                  projectRoot (env_join env projectRoot (ascii ''.git'')) gitStat = Inr gitDir"
  shows "result first = Inr (Min (set hs))
       \<and> result (getProjectId (env\<lparr>env_rev_list := \<lambda>d. Exited 0 (root_lines hs') err'\<rparr>) projectRoot)
           = Inr (Min (set hs))
       \<and> result (getProjectId (after_call (env\<lparr>env_rev_list := \<lambda>d. Exited 0 (root_lines hs') err'\<rparr>) first)
                   projectRoot) = Inr (Min (set hs))
       \<and> (\<exists>v. result (getProjectId (env\<lparr>env_rev_list := git\<rparr>) projectRoot) = Inr v
              \<and> (\<forall>txt. env_exists env cacheFile \<and> env_text env cacheFile = Inr txt \<longrightarrow> v \<noteq> trim txt))"
proof -
  let ?ws = "if env_exists env cacheFile then [InvalidCache cacheFile] else []"
  have regen: "getProjectId (env\<lparr>env_rev_list := g\<rparr>) projectRoot
                 = generate_id (env\<lparr>env_rev_list := g\<rparr>) projectRoot cacheFile ?ws" for g
  proof -
    have "no_valid_cache (env\<lparr>env_rev_list := g\<rparr>) (env_join (env\<lparr>env_rev_list := g\<rparr>) gitDir (ascii ''opencode''))"
      using cache cf by (simp add: no_valid_cache_def)
    with root stat dir cf
    show ?thesis
      using getProjectId_regenerates [of projectRoot "env\<lparr>env_rev_list := g\<rparr>" gitStat gitDir]
      by (simp add: resolve_git_dir_rev_list)
  qed
  let ?envA = "env\<lparr>env_rev_list := \<lambda>d. Exited 0 (root_lines hs) err\<rparr>"
  let ?envB = "env\<lparr>env_rev_list := \<lambda>d. Exited 0 (root_lines hs') err'\<rparr>"
  from hs have hs': "hs' \<noteq> []" "list_all is_hash hs'"
    by (auto simp: list_all_iff)
  have 1: "result first = Inr (Min (set hs))"
    unfolding first regen using hs by (intro generate_id_roots) simp_all
  have 2: "result (getProjectId ?envB projectRoot) = Inr (Min (set hs))"
    unfolding regen using hs' hs(3) generate_id_roots [of ?envB projectRoot hs' err' cacheFile ?ws]
    by simp
  have m: "is_hash (Min (set hs))"
  proof -
    from hs(1) have "Min (set hs) \<in> set hs" by simp
    with hs(2) show ?thesis by (simp add: list_all_iff)
  qed
  have 3: "result (getProjectId (after_call ?envB first) projectRoot) = Inr (Min (set hs))"
  proof (cases "cached first")
    case None
    then have "after_call ?envB first = ?envB" by (simp add: after_call_def)
    with 2 show ?thesis by simp
  next
    case (Some pt)
    obtain p t where pt: "pt = (p, t)" by (cases pt)
    with Some first have "cached (generate_id ?envA projectRoot cacheFile ?ws) = Some (p, t)"
      by (simp add: regen)
    then have "p = cacheFile" and "result (generate_id ?envA projectRoot cacheFile ?ws) = Inr t"
      by (auto dest: generate_id_cached)
    with 1 first have p: "p = cacheFile" and t: "t = Min (set hs)"
      by (simp_all add: regen)
    let ?env2 = "after_call ?envB first"
    from Some pt p t have e: "env_exists ?env2 cacheFile" "env_text ?env2 cacheFile = Inr (Min (set hs))"
      "env_join ?env2 = env_join env" "env_stat ?env2 = env_stat env"
      by (simp_all add: after_call_def)
    from root stat again cf e m show ?thesis
      using getProjectId_cache_hit [of projectRoot ?env2 gitStat gitDir "Min (set hs)"]
      by simp
  qed
  have 4: "\<exists>v. result (getProjectId (env\<lparr>env_rev_list := git\<rparr>) projectRoot) = Inr v
              \<and> (\<forall>txt. env_exists env cacheFile \<and> env_text env cacheFile = Inr txt \<longrightarrow> v \<noteq> trim txt)"
  proof -
    from generate_id_returns [of "env\<lparr>env_rev_list := git\<rparr>" projectRoot cacheFile ?ws]
    obtain v where v: "result (generate_id (env\<lparr>env_rev_list := git\<rparr>) projectRoot cacheFile ?ws) = Inr v"
      and shape: "regex_test hex40Regex v \<or> v = hashPath env projectRoot"
      by (auto simp: hashPath_rev_list)
    from shape sha have "regex_test hex40Regex v \<or> regex_test hex16Regex v"
      by (auto intro: hashPath_hex16)
    with cache have "\<forall>txt. env_exists env cacheFile \<and> env_text env cacheFile = Inr txt \<longrightarrow> v \<noteq> trim txt"
      by (auto simp: no_valid_cache_def)
    with v show ?thesis by (simp add: regen)
  qed
  from 1 2 3 4 show ?thesis by blast
qed

lemma hashes: "is_hash hashA" "is_hash hashB" "Min (set [hashB, hashA]) = hashA"
  by (simp_all add: is_hash_def hashA_def hashB_def ascii_def hex_i_def is_digit_def min_def)

theorem getProjectId_deterministic_witness:
  "ascii ''/repo'' \<noteq> []
   \<and> env_stat demo_env (env_join demo_env (ascii ''/repo'') (ascii ''.git'')) = Some Directory
   \<and> no_valid_cache demo_env (ascii ''/repo/.git/opencode'')
   \<and> list_all is_hash [hashB, hashA]
   \<and> set [hashA, hashB] = set [hashB, hashA]
   \<and> result (getProjectId (demo_env\<lparr>env_rev_list := \<lambda>d. Exited 0 (root_lines [hashB, hashA]) []\<rparr>)
               (ascii ''/repo'')) = Inr hashA
   \<and> result (getProjectId (demo_env\<lparr>env_rev_list := \<lambda>d. Exited 0 (root_lines [hashA, hashB]) []\<rparr>)
               (ascii ''/repo'')) = Inr hashA
   \<and> result (getProjectId
               (after_call (demo_env\<lparr>env_rev_list := \<lambda>d. Exited 0 (root_lines [hashA, hashB]) []\<rparr>)
                  (getProjectId (demo_env\<lparr>env_rev_list := \<lambda>d. Exited 0 (root_lines [hashB, hashA]) []\<rparr>)
                     (ascii ''/repo'')))
               (ascii ''/repo'')) = Inr hashA
   \<and> (\<exists>v. result (getProjectId (demo_env\<lparr>env_rev_list := \<lambda>d. TimedOut []\<rparr>) (ascii ''/repo'')) = Inr v
          \<and> v \<noteq> ascii ''not-a-hash'')"
proof -
  have root: "ascii ''/repo'' \<noteq> []"
    by (simp add: ascii_def)
  have stat: "env_stat demo_env (env_join demo_env (ascii ''/repo'') (ascii ''.git'')) = Some Directory"
    by (simp add: demo_env_def ascii_def)
  have dir: "resolve_git_dir demo_env (ascii ''/repo'') (env_join demo_env (ascii ''/repo'') (ascii ''.git''))
               Directory = Inr (ascii ''/repo/.git'')"
    by (simp add: resolve_git_dir_def demo_env_def ascii_def)
  have cf: "ascii ''/repo/.git/opencode'' = env_join demo_env (ascii ''/repo/.git'') (ascii ''opencode'')"
    by (simp add: demo_env_def ascii_def)
  have tr: "trim (ascii ''not-a-hash\<newline>'') = ascii ''not-a-hash''"
    by (simp add: trim_def ascii_def is_space_def)
  have ex: "env_exists demo_env (ascii ''/repo/.git/opencode'')"
    and tx: "env_text demo_env (ascii ''/repo/.git/opencode'') = Inr (ascii ''not-a-hash\<newline>'')"
    by (simp_all add: demo_env_def)
  have cache: "no_valid_cache demo_env (ascii ''/repo/.git/opencode'')"
    by (simp add: no_valid_cache_def ex tx tr regex_test_hex40 regex_test_hex16) (simp add: ascii_def)
  have sha: "length (env_sha256 demo_env (ascii ''/repo'')) = 64"
    "list_all hex_i (env_sha256 demo_env (ascii ''/repo''))"
    by (simp_all add: demo_env_def ascii_def hex_i_def is_digit_def)
  have hs: "[hashB, hashA] \<noteq> []" "list_all is_hash [hashB, hashA]" "set [hashA, hashB] = set [hashB, hashA]"
    using hashes by auto
  have again: "resolve_git_dir
       (after_call (demo_env\<lparr>env_rev_list := \<lambda>d. Exited 0 (root_lines [hashA, hashB]) []\<rparr>)
          (getProjectId (demo_env\<lparr>env_rev_list := \<lambda>d. Exited 0 (root_lines [hashB, hashA]) []\<rparr>)
             (ascii ''/repo'')))
       (ascii ''/repo'') (env_join demo_env (ascii ''/repo'') (ascii ''.git'')) Directory
       = Inr (ascii ''/repo/.git'')"
    by (simp add: resolve_git_dir_def demo_env_def ascii_def)
  from getProjectId_deterministic [OF root stat dir cf cache sha hs refl again,
         of "\<lambda>d. TimedOut []"]
       stat cache hs ex tx tr hashes(3) root
  show ?thesis by simp
qed

section \<open>Frontmatter with extra lines\<close>

























end
